theory Spec2Isabelle
  imports Complex_Main "HOL-Library.Monad_Syntax"
begin

section \<open>Findings returned by the reasoning step\<close>

text \<open>
  One element of the array that \<open>analyzeCode\<close> returns: the output type of the entries of
  \<open>VulnerabilityDetectionSchema\<close>. JavaScript strings are sequences of code units and are
  modelled as \<open>string\<close>; JavaScript numbers are modelled as \<open>real\<close>; an optional property is
  an \<open>option\<close> (\<open>None\<close> is \<open>undefined\<close>).
\<close>

record vuln =
  severity :: string
  type :: string
  category :: string
  filePath :: string
  lineNumber :: "real option"
  codeSnippet :: "string option"
  description :: string
  recommendation :: string
  confidenceScore :: "real option"

section \<open>Severity aggregation (startAnalysis, lines 340-359)\<close>

record issueCounts =
  critical :: nat
  high :: nat
  medium :: nat
  low :: nat

text \<open>\<open>vulnerabilities.filter(v => v.severity === s).length\<close>\<close>

definition countSeverity :: "string \<Rightarrow> 'a vuln_scheme list \<Rightarrow> nat" where
  "countSeverity s vulnerabilities = length (filter (\<lambda>v. severity v = s) vulnerabilities)"

definition calcIssueCounts :: "'a vuln_scheme list \<Rightarrow> issueCounts" where
  "calcIssueCounts vulnerabilities =
     \<lparr> critical = countSeverity ''critical'' vulnerabilities,
       high = countSeverity ''high'' vulnerabilities,
       medium = countSeverity ''medium'' vulnerabilities,
       low = countSeverity ''low'' vulnerabilities \<rparr>"

text \<open>
  \<open>let overallScore = 10; if (totalIssues > 0) overallScore = Math.max(0, 10 - (...))\<close>.
  Every intermediate value is a multiple of one half bounded by three times the length of
  the list, so the double arithmetic of the source is exact and agrees with \<open>real\<close>.
\<close>

definition calcOverallScore :: "'a vuln_scheme list \<Rightarrow> real" where
  "calcOverallScore vulnerabilities =
     (let issueCounts = calcIssueCounts vulnerabilities;
          totalIssues = length vulnerabilities
      in if totalIssues > 0
         then max 0 (10 - (real (critical issueCounts) * 3 +
                           real (high issueCounts) * 2 +
                           real (medium issueCounts) * 1 +
                           real (low issueCounts) * 0.5))
         else 10)"

section \<open>Locating the JSON payload in the raw text (analyzeCode, lines 252-270)\<close>

text \<open>
  The regular-expression class \<open>\s\<close> on code units below 256: tab, line feed, vertical tab,
  form feed, carriage return, space and no-break space.
\<close>

definition isSpace :: "char \<Rightarrow> bool" where
  "isSpace c = (c \<in> set [CHR 0x09, CHR 0x0A, CHR 0x0B, CHR 0x0C, CHR 0x0D, CHR 0x20, CHR 0xA0])"

definition startsWith :: "string \<Rightarrow> string \<Rightarrow> bool" where
  "startsWith p s = (take (length p) s = p)"

definition stripPrefix :: "string \<Rightarrow> string \<Rightarrow> string option" where
  "stripPrefix p s = (if startsWith p s then Some (drop (length p) s) else None)"

text \<open>
  The first pattern is \<^verbatim>\<open>/```(?:json)?\s*(\{[\s\S]*?\})\s*```/\<close>; the functions below follow
  the backtracking matcher piece by piece and return capture group 1.

  \<open>lazyGroupTail\<close> is \<^verbatim>\<open>[\s\S]*?\}\s*```\<close>: the lazy star first tries to stop (the next
  character is the closing brace and, after the white space, the closing fence follows)
  and only then consumes one more character of any kind. The greedy \<^verbatim>\<open>\s*\<close> in front of
  a character that is no white space can only succeed having consumed all the white
  space, hence \<open>dropWhile\<close>.
\<close>

fun lazyGroupTail :: "string \<Rightarrow> string option" where
  "lazyGroupTail [] = None"
| "lazyGroupTail (c # cs) =
     (if c = CHR ''}'' \<and> startsWith ''```'' (dropWhile isSpace cs) then Some [c]
      else map_option (Cons c) (lazyGroupTail cs))"

text \<open>\<^verbatim>\<open>\s*(\{[\s\S]*?\})\s*```\<close>, anchored.\<close>

definition afterFence :: "string \<Rightarrow> string option" where
  "afterFence r =
     (case dropWhile isSpace r of
        [] \<Rightarrow> None
      | c # cs \<Rightarrow> if c = CHR ''{'' then map_option (Cons c) (lazyGroupTail cs) else None)"

text \<open>The whole pattern anchored at the start of \<open>t\<close>; the optional group is greedy.\<close>

definition codeBlockAt :: "string \<Rightarrow> string option" where
  "codeBlockAt t =
     (case stripPrefix ''```'' t of
        None \<Rightarrow> None
      | Some r \<Rightarrow>
          (case (case stripPrefix ''json'' r of None \<Rightarrow> None | Some r' \<Rightarrow> afterFence r') of
             Some g \<Rightarrow> Some g
           | None \<Rightarrow> afterFence r))"

text \<open>\<open>text.match(...)\<close>: the leftmost position at which the pattern matches.\<close>

fun codeBlockMatch :: "string \<Rightarrow> string option" where
  "codeBlockMatch [] = None"
| "codeBlockMatch (c # cs) =
     (case codeBlockAt (c # cs) of Some g \<Rightarrow> Some g | None \<Rightarrow> codeBlockMatch cs)"

text \<open>
  The fallback pattern is \<^verbatim>\<open>/\{[\s\S]*\}/\<close>. \<open>greedyTail\<close> is \<^verbatim>\<open>[\s\S]*\}\<close>: the greedy
  star prefers to consume the next character and stops at a closing brace only when no
  longer match exists.
\<close>

fun greedyTail :: "string \<Rightarrow> string option" where
  "greedyTail [] = None"
| "greedyTail (c # cs) =
     (case greedyTail cs of
        Some b \<Rightarrow> Some (c # b)
      | None \<Rightarrow> if c = CHR ''}'' then Some [c] else None)"

fun jsonMatch :: "string \<Rightarrow> string option" where
  "jsonMatch [] = None"
| "jsonMatch (c # cs) =
     (if c = CHR ''{''
      then (case greedyTail cs of Some b \<Rightarrow> Some (c # b) | None \<Rightarrow> jsonMatch cs)
      else jsonMatch cs)"

text \<open>
  The candidate payload \<open>jsonText\<close> (lines 253-265); the empty string when neither pattern
  matches.
\<close>

definition jsonText :: "string \<Rightarrow> string" where
  "jsonText text =
     (case codeBlockMatch text of
        Some g \<Rightarrow> g
      | None \<Rightarrow> (case jsonMatch text of Some m \<Rightarrow> m | None \<Rightarrow> []))"

section \<open>Schema validation (VulnerabilityDetectionSchema, lines 164-176)\<close>

text \<open>
  A value produced by \<open>JSON.parse\<close>. An object is the list of its properties; a property is
  read with \<open>map_of\<close>, and a missing property reads as \<open>None\<close> (\<open>undefined\<close>).
\<close>

datatype json =
    JNull
  | JBool bool
  | JNum real
  | JStr string
  | JArr "json list"
  | JObj "(string \<times> json) list"

text \<open>
  The field schemas. Each takes the property as read from the object and returns \<open>None\<close>
  where the validation library reports an issue. An \<open>optional()\<close> schema accepts \<open>undefined\<close>
  (and not \<open>null\<close>).
\<close>

definition severityValues :: "string list" where
  "severityValues = [''critical'', ''high'', ''medium'', ''low'']"

text \<open>\<open>z.enum(["critical", "high", "medium", "low"])\<close>\<close>

definition zEnum :: "string list \<Rightarrow> json option \<Rightarrow> string option" where
  "zEnum vs x = (case x of Some (JStr s) \<Rightarrow> if s \<in> set vs then Some s else None | _ \<Rightarrow> None)"

text \<open>\<open>z.string().min(n)\<close>\<close>

definition zStringMin :: "nat \<Rightarrow> json option \<Rightarrow> string option" where
  "zStringMin n x = (case x of Some (JStr s) \<Rightarrow> if n \<le> length s then Some s else None | _ \<Rightarrow> None)"

text \<open>\<open>z.number().optional()\<close>\<close>

definition zNumberOptional :: "json option \<Rightarrow> real option option" where
  "zNumberOptional x = (case x of None \<Rightarrow> Some None | Some (JNum r) \<Rightarrow> Some (Some r) | _ \<Rightarrow> None)"

text \<open>\<open>z.string().optional()\<close>\<close>

definition zStringOptional :: "json option \<Rightarrow> string option option" where
  "zStringOptional x = (case x of None \<Rightarrow> Some None | Some (JStr s) \<Rightarrow> Some (Some s) | _ \<Rightarrow> None)"

text \<open>\<open>z.number().min(0).max(1).optional()\<close>\<close>

definition zNumberMinMaxOptional :: "real \<Rightarrow> real \<Rightarrow> json option \<Rightarrow> real option option" where
  "zNumberMinMaxOptional lo hi x =
     (case x of
        None \<Rightarrow> Some None
      | Some (JNum r) \<Rightarrow> if lo \<le> r \<and> r \<le> hi then Some (Some r) else None
      | _ \<Rightarrow> None)"

text \<open>The entry schema: an object whose listed properties all validate; other keys are dropped.\<close>

fun zVulnerability :: "json \<Rightarrow> vuln option" where
  "zVulnerability (JObj kvs) =
     do {
       sev \<leftarrow> zEnum severityValues (map_of kvs ''severity'');
       ty \<leftarrow> zStringMin 1 (map_of kvs ''type'');
       cat \<leftarrow> zStringMin 1 (map_of kvs ''category'');
       fp \<leftarrow> zStringMin 1 (map_of kvs ''filePath'');
       ln \<leftarrow> zNumberOptional (map_of kvs ''lineNumber'');
       cs \<leftarrow> zStringOptional (map_of kvs ''codeSnippet'');
       de \<leftarrow> zStringMin 10 (map_of kvs ''description'');
       re \<leftarrow> zStringMin 10 (map_of kvs ''recommendation'');
       co \<leftarrow> zNumberMinMaxOptional 0 1 (map_of kvs ''confidenceScore'');
       Some \<lparr> severity = sev, type = ty, category = cat, filePath = fp, lineNumber = ln,
              codeSnippet = cs, description = de, recommendation = re, confidenceScore = co \<rparr>
     }"
| "zVulnerability _ = None"

text \<open>
  \<open>VulnerabilityDetectionSchema.parse\<close>: \<open>None\<close> stands for the exception it throws. The
  array schema reports an issue as soon as one element does, so the result is the list of
  all validated entries or nothing.
\<close>

definition VulnerabilityDetectionSchema_parse :: "json \<Rightarrow> vuln list option" where
  "VulnerabilityDetectionSchema_parse j =
     (case j of
        JObj kvs \<Rightarrow>
          (case map_of kvs ''vulnerabilities'' of
             Some (JArr es) \<Rightarrow> those (map zVulnerability es)
           | _ \<Rightarrow> None)
      | _ \<Rightarrow> None)"

section \<open>analyzeCode (lines 178-293)\<close>

text \<open>
  The call of the reasoning service (lines 233-245) either throws or yields the text of the
  response. The prompt built from \<open>content\<close> and \<open>projectName\<close> only feeds that call, so
  the model takes the outcome of the call as its argument.
\<close>

datatype upstream = Throws | Text string

text \<open>
  \<open>JSON.parse\<close> belongs to the runtime and is a parameter: \<open>None\<close> stands for the
  \<open>SyntaxError\<close> it throws. Both \<open>catch\<close> blocks return the empty array.
\<close>

definition analyzeCode :: "(string \<Rightarrow> json option) \<Rightarrow> upstream \<Rightarrow> string \<Rightarrow> vuln list" where
  "analyzeCode JSON_parse result projectName =
     (case result of
        Throws \<Rightarrow> []
      | Text text \<Rightarrow>
          if text = [] then []
          else if jsonText text = [] then []
          else (case JSON_parse (jsonText text) of
                  None \<Rightarrow> []
                | Some parsedResponse \<Rightarrow>
                    (case VulnerabilityDetectionSchema_parse parsedResponse of
                       None \<Rightarrow> []
                     | Some validatedResponse \<Rightarrow>
                         map (\<lambda>vuln. vuln\<lparr> filePath :=
                                (if filePath vuln = [] then projectName @ ''/main.js''
                                 else filePath vuln) \<rparr>)
                             validatedResponse)))"

section \<open>The store (db/schema)\<close>

text \<open>
  The tables as lists of rows, with the columns the handlers below read or write. The
  column \<open>id\<close> of each table carries the table's name, since \<open>id\<close> is the identity
  function of HOL. Timestamps are milliseconds.
\<close>

record apiKeyRow =
  key_id :: string
  keyHash :: string
  isActive :: bool

record project =
  project_id :: string
  apiKeyId :: string
  name :: string
  content :: string
  lastAnalyzedAt :: "int option"
  updatedAt :: int

record analysisSession =
  session_id :: string
  projectId :: string
  status :: string
  overallScore :: "real option"
  totalIssues :: nat
  criticalIssues :: nat
  highIssues :: nat
  mediumIssues :: nat
  lowIssues :: nat
  supportedFiles :: "string option"
  processingTimeMs :: "int option"
  aiModelUsed :: "string option"
  createdAt :: int
  completedAt :: "int option"

text \<open>A row of \<open>security_issues\<close>: the columns of a finding and five more.\<close>

record securityIssue = vuln +
  issue_id :: string
  analysisSessionId :: string
  falsePositive :: bool
  resolved :: bool
  issueCreatedAt :: int

record db =
  apiKeysTable :: "apiKeyRow list"
  projectsTable :: "project list"
  analysisSessionsTable :: "analysisSession list"
  securityIssuesTable :: "securityIssue list"

text \<open>\<open>.get()\<close>: the first row of a result, if any.\<close>

definition get :: "'a list \<Rightarrow> 'a option" where
  "get rows = (case rows of [] \<Rightarrow> None | r # _ \<Rightarrow> Some r)"

text \<open>
  \<open>xs.leftJoin(ys, on)\<close>: every row of \<open>xs\<close> with each matching row of \<open>ys\<close>, or with
  \<open>NULL\<close> when none matches.
\<close>

definition leftJoin :: "'a list \<Rightarrow> 'b list \<Rightarrow> ('a \<Rightarrow> 'b \<Rightarrow> bool) \<Rightarrow> ('a \<times> 'b option) list" where
  "leftJoin xs ys on =
     concat (map (\<lambda>x. case filter (on x) ys of
                         [] \<Rightarrow> [(x, None)]
                       | m # ms \<Rightarrow> map (\<lambda>y. (x, Some y)) (m # ms)) xs)"

text \<open>
  \<open>securityIssuesTable LEFT JOIN analysisSessionsTable LEFT JOIN projectsTable\<close>, as every
  issue handler builds it. A comparison with a \<open>NULL\<close> column is not true.
\<close>

definition issuesWithProject :: "db \<Rightarrow> ((securityIssue \<times> analysisSession option) \<times> project option) list" where
  "issuesWithProject d =
     leftJoin
       (leftJoin (securityIssuesTable d) (analysisSessionsTable d)
          (\<lambda>i s. analysisSessionId i = session_id s))
       (projectsTable d)
       (\<lambda>(i, s) p. case s of None \<Rightarrow> False | Some s' \<Rightarrow> projectId s' = project_id p)"

definition projectOwnedBy :: "string \<Rightarrow> project option \<Rightarrow> bool" where
  "projectOwnedBy k p = (case p of None \<Rightarrow> False | Some p' \<Rightarrow> apiKeyId p' = k)"

section \<open>Responses and the runtime\<close>

text \<open>
  The helpers \<open>errorResponse\<close> and \<open>successResponse\<close> of \<open>lib/response-helper\<close> are not
  among the source files. A response is recorded by the arguments a handler passes to the
  helper: the data, the message and the status code. The status codes are those of HTTP.
\<close>

record exportData =
  export_analysisSession :: analysisSession
  export_projectName :: "string option"
  export_securityIssues :: "securityIssue list"
  exportedAt :: int

datatype payload =
    AnalysisResults analysisSession "securityIssue list"
  | Export exportData
  | PdfExport string exportData
  | UpdatedIssue "securityIssue option"
  | BulkUpdated nat "securityIssue list"

datatype response =
    errorResponse string nat
  | successResponse payload string nat

definition OK :: nat where "OK = 200"
definition CREATED :: nat where "CREATED = 201"
definition BAD_REQUEST :: nat where "BAD_REQUEST = 400"
definition UNAUTHORIZED :: nat where "UNAUTHORIZED = 401"
definition FORBIDDEN :: nat where "FORBIDDEN = 403"
definition NOT_FOUND :: nat where "NOT_FOUND = 404"
definition INTERNAL_SERVER_ERROR :: nat where "INTERNAL_SERVER_ERROR = 500"

text \<open>
  What a handler takes from outside the repository: the SHA-256 digest in hexadecimal,
  \<open>JSON.parse\<close>, the reasoning service as a function of the project's content and name,
  the value of the \<open>k\<close>-th call of \<open>crypto.randomUUID()\<close> and the \<open>k\<close>-th reading of the
  clock within one request.
\<close>

record runtime =
  sha256 :: "string \<Rightarrow> string"
  JSON_parse :: "string \<Rightarrow> json option"
  generateContent :: "string \<Rightarrow> string \<Rightarrow> upstream"
  randomUUID :: "nat \<Rightarrow> string"
  now :: "nat \<Rightarrow> int"

section \<open>Authentication helpers\<close>

definition getApiKeyFromHeader :: "string option \<Rightarrow> string option" where
  "getApiKeyFromHeader authHeader =
     (case authHeader of
        None \<Rightarrow> None
      | Some h \<Rightarrow> if startsWith ''Bearer '' h then Some (drop 7 h) else None)"

text \<open>\<open>apiKeyRecord?.id || null\<close>: an empty id counts as no id.\<close>

definition validateApiKey :: "runtime \<Rightarrow> db \<Rightarrow> string \<Rightarrow> string option" where
  "validateApiKey rt d apiKey =
     (case get (filter (\<lambda>r. keyHash r = sha256 rt apiKey \<and> isActive r) (apiKeysTable d)) of
        None \<Rightarrow> None
      | Some apiKeyRecord \<Rightarrow> if key_id apiKeyRecord = [] then None else Some (key_id apiKeyRecord))"

definition verifyProjectOwnership :: "db \<Rightarrow> string \<Rightarrow> string \<Rightarrow> bool" where
  "verifyProjectOwnership d pid k =
     (get (filter (\<lambda>p. project_id p = pid \<and> apiKeyId p = k) (projectsTable d)) \<noteq> None)"

definition verifyIssueOwnership :: "db \<Rightarrow> string \<Rightarrow> string \<Rightarrow> bool" where
  "verifyIssueOwnership d issueId k =
     (get (filter (\<lambda>((i, s), p). issue_id i = issueId \<and> projectOwnedBy k p)
             (issuesWithProject d)) \<noteq> None)"

section \<open>startAnalysis (lines 295-443)\<close>

text \<open>
  The row given to \<open>insert(securityIssuesTable).values(...)\<close> for the \<open>k\<close>-th finding
  (lines 390-405). \<open>vuln.confidenceScore || 0.8\<close> takes the fallback when the score is
  \<open>undefined\<close> and when it is zero.
\<close>

definition issueValues :: "runtime \<Rightarrow> string \<Rightarrow> nat \<Rightarrow> vuln \<Rightarrow> securityIssue" where
  "issueValues rt sessionId k vuln =
     \<lparr> severity = severity vuln,
       type = type vuln,
       category = category vuln,
       filePath = filePath vuln,
       lineNumber = lineNumber vuln,
       codeSnippet = codeSnippet vuln,
       description = description vuln,
       recommendation = recommendation vuln,
       confidenceScore =
         Some (case confidenceScore vuln of
                 None \<Rightarrow> 0.8
               | Some x \<Rightarrow> if x = 0 then 0.8 else x),
       issue_id = randomUUID rt (Suc k),
       analysisSessionId = sessionId,
       falsePositive = False,
       resolved = False,
       issueCreatedAt = now rt (4 + k) \<rparr>"

text \<open>
  The loop of lines 385-412 over the findings from the \<open>k\<close>-th on: it returns
  \<open>storedIssues\<close> and the table. An insert throws when the primary key is taken; the loop
  catches that and goes on with the next finding.
\<close>

fun storeIssues ::
  "runtime \<Rightarrow> string \<Rightarrow> nat \<Rightarrow> vuln list \<Rightarrow> securityIssue list \<Rightarrow> securityIssue list \<times> securityIssue list"
where
  "storeIssues rt sessionId k [] tbl = ([], tbl)"
| "storeIssues rt sessionId k (vuln # vs) tbl =
     (let issue = issueValues rt sessionId k vuln
      in if issue_id issue \<in> set (map issue_id tbl)
         then storeIssues rt sessionId (Suc k) vs tbl
         else (case storeIssues rt sessionId (Suc k) vs (tbl @ [issue]) of
                 (storedIssues, tbl') \<Rightarrow> (issue # storedIssues, tbl')))"

text \<open>The row given to \<open>insert(analysisSessionsTable).values(...)\<close> (lines 366-380).\<close>

definition sessionValues :: "runtime \<Rightarrow> string \<Rightarrow> vuln list \<Rightarrow> analysisSession" where
  "sessionValues rt pid vulnerabilities =
     (let issueCounts = calcIssueCounts vulnerabilities
      in \<lparr> session_id = randomUUID rt 0,
           projectId = pid,
           status = ''completed'',
           overallScore = Some (calcOverallScore vulnerabilities),
           totalIssues = length vulnerabilities,
           criticalIssues = critical issueCounts,
           highIssues = high issueCounts,
           mediumIssues = medium issueCounts,
           lowIssues = low issueCounts,
           supportedFiles = None,
           processingTimeMs = Some (now rt 2 - now rt 1),
           aiModelUsed = Some ''gemini-2.5-flash-lite'',
           createdAt = now rt 0,
           completedAt = Some (now rt 3) \<rparr>)"

text \<open>
  The handler returns its response and the store it leaves. The insert of the session
  throws when the primary key is taken, which the outer \<open>catch\<close> turns into status 500.
\<close>

definition startAnalysis :: "runtime \<Rightarrow> db \<Rightarrow> string option \<Rightarrow> string \<Rightarrow> response \<times> db" where
  "startAnalysis rt d authHeader pid =
     (case getApiKeyFromHeader authHeader of
        None \<Rightarrow> (errorResponse ''Authorization required'' UNAUTHORIZED, d)
      | Some apiKey \<Rightarrow>
          if apiKey = [] then (errorResponse ''Authorization required'' UNAUTHORIZED, d)
          else (case validateApiKey rt d apiKey of
             None \<Rightarrow> (errorResponse ''Invalid API key'' UNAUTHORIZED, d)
           | Some k \<Rightarrow>
               if \<not> verifyProjectOwnership d pid k
               then (errorResponse ''Project not found'' NOT_FOUND, d)
               else (case get (filter (\<lambda>p. project_id p = pid) (projectsTable d)) of
                  None \<Rightarrow> (errorResponse ''Project not found'' NOT_FOUND, d)
                | Some proj \<Rightarrow>
                    (let vulnerabilities =
                           analyzeCode (JSON_parse rt) (generateContent rt (content proj) (name proj))
                             (name proj);
                         session = sessionValues rt pid vulnerabilities
                     in if session_id session \<in> set (map session_id (analysisSessionsTable d))
                        then (errorResponse ''Error performing analysis'' INTERNAL_SERVER_ERROR, d)
                        else (case storeIssues rt (session_id session) 0 vulnerabilities
                                     (securityIssuesTable d) of
                                (storedIssues, tbl') \<Rightarrow>
                                  (successResponse (AnalysisResults session storedIssues)
                                     ''Analysis completed successfully'' CREATED,
                                   d\<lparr> analysisSessionsTable := analysisSessionsTable d @ [session],
                                      securityIssuesTable := tbl',
                                      projectsTable :=
                                        map (\<lambda>p. if project_id p = project_id proj
                                                  then p\<lparr> lastAnalyzedAt :=
                                                            Some (now rt (4 + length vulnerabilities)),
                                                          updatedAt :=
                                                            now rt (5 + length vulnerabilities) \<rparr>
                                                  else p)
                                            (projectsTable d) \<rparr>))))))"

section \<open>getAnalysisResults and exportAnalysis (lines 445-581)\<close>

text \<open>
  The session with the api key (and name) of its project, through the left join of lines
  461-469 and 520-529.
\<close>

definition sessionWithProject :: "db \<Rightarrow> string \<Rightarrow> (analysisSession \<times> project option) option" where
  "sessionWithProject d sessionId =
     get (filter (\<lambda>(s, p). session_id s = sessionId)
            (leftJoin (analysisSessionsTable d) (projectsTable d)
               (\<lambda>s p. projectId s = project_id p)))"

definition getAnalysisResults :: "runtime \<Rightarrow> db \<Rightarrow> string option \<Rightarrow> string \<Rightarrow> response" where
  "getAnalysisResults rt d authHeader sessionId =
     (case getApiKeyFromHeader authHeader of
        None \<Rightarrow> errorResponse ''Authorization required'' UNAUTHORIZED
      | Some apiKey \<Rightarrow>
          if apiKey = [] then errorResponse ''Authorization required'' UNAUTHORIZED
          else (case validateApiKey rt d apiKey of
             None \<Rightarrow> errorResponse ''Invalid API key'' UNAUTHORIZED
           | Some k \<Rightarrow>
               (case sessionWithProject d sessionId of
                  None \<Rightarrow> errorResponse ''Analysis session not found'' NOT_FOUND
                | Some (session, p) \<Rightarrow>
                    if map_option apiKeyId p \<noteq> Some k
                    then errorResponse ''Analysis session not found'' NOT_FOUND
                    else successResponse
                           (AnalysisResults session
                              (filter (\<lambda>i. analysisSessionId i = sessionId) (securityIssuesTable d)))
                           ''Analysis results retrieved successfully'' OK)))"

datatype exportFormat = Json | Pdf

text \<open>The handler returns the headers it sets and its response.\<close>

definition exportAnalysis ::
  "runtime \<Rightarrow> db \<Rightarrow> string option \<Rightarrow> string \<Rightarrow> exportFormat \<Rightarrow> (string \<times> string) list \<times> response"
where
  "exportAnalysis rt d authHeader sessionId format =
     (case getApiKeyFromHeader authHeader of
        None \<Rightarrow> ([], errorResponse ''Authorization required'' UNAUTHORIZED)
      | Some apiKey \<Rightarrow>
          if apiKey = [] then ([], errorResponse ''Authorization required'' UNAUTHORIZED)
          else (case validateApiKey rt d apiKey of
             None \<Rightarrow> ([], errorResponse ''Invalid API key'' UNAUTHORIZED)
           | Some k \<Rightarrow>
               (case sessionWithProject d sessionId of
                  None \<Rightarrow> ([], errorResponse ''Analysis session not found'' NOT_FOUND)
                | Some (session, p) \<Rightarrow>
                    if map_option apiKeyId p \<noteq> Some k
                    then ([], errorResponse ''Analysis session not found'' NOT_FOUND)
                    else (let data =
                                \<lparr> export_analysisSession = session,
                                  export_projectName = map_option name p,
                                  export_securityIssues =
                                    filter (\<lambda>i. analysisSessionId i = sessionId)
                                      (securityIssuesTable d),
                                  exportedAt = now rt 0 \<rparr>
                          in if format = Pdf
                             then ([(''Content-Type'', ''application/pdf''),
                                    (''Content-Disposition'',
                                     ''attachment; filename=\"analysis_'' @ sessionId @ ''.pdf\"'')],
                                   successResponse
                                     (PdfExport ''PDF export would be generated here'' data)
                                     ''PDF export prepared (mock implementation)'' OK)
                             else ([(''Content-Type'', ''application/json''),
                                    (''Content-Disposition'',
                                     ''attachment; filename=\"analysis_'' @ sessionId @ ''.json\"'')],
                                   successResponse (Export data)
                                     ''Analysis exported successfully'' OK)))))"

section \<open>resolveIssue, markFalsePositive and bulkUpdateIssues\<close>

text \<open>
  \<open>update(securityIssuesTable).set(...).where(eq(securityIssuesTable.id, id)).returning()\<close>:
  the table after the update and the updated rows.
\<close>

definition updateIssues ::
  "(securityIssue \<Rightarrow> securityIssue) \<Rightarrow> (securityIssue \<Rightarrow> bool) \<Rightarrow> securityIssue list
   \<Rightarrow> securityIssue list \<times> securityIssue list"
where
  "updateIssues set_fields cond tbl =
     (map (\<lambda>i. if cond i then set_fields i else i) tbl,
      map set_fields (filter cond tbl))"

definition resolveIssue :: "runtime \<Rightarrow> db \<Rightarrow> string option \<Rightarrow> string \<Rightarrow> response \<times> db" where
  "resolveIssue rt d authHeader issueId =
     (case getApiKeyFromHeader authHeader of
        None \<Rightarrow> (errorResponse ''Authorization required'' UNAUTHORIZED, d)
      | Some apiKey \<Rightarrow>
          if apiKey = [] then (errorResponse ''Authorization required'' UNAUTHORIZED, d)
          else (case validateApiKey rt d apiKey of
             None \<Rightarrow> (errorResponse ''Invalid API key'' UNAUTHORIZED, d)
           | Some k \<Rightarrow>
               if \<not> verifyIssueOwnership d issueId k
               then (errorResponse ''Issue not found'' NOT_FOUND, d)
               else (case updateIssues (\<lambda>i. i\<lparr> resolved := True \<rparr>)
                            (\<lambda>i. issue_id i = issueId) (securityIssuesTable d) of
                       (tbl', returning) \<Rightarrow>
                         (successResponse (UpdatedIssue (get returning))
                            ''Issue marked as resolved'' OK,
                          d\<lparr> securityIssuesTable := tbl' \<rparr>))))"

definition markFalsePositive :: "runtime \<Rightarrow> db \<Rightarrow> string option \<Rightarrow> string \<Rightarrow> response \<times> db" where
  "markFalsePositive rt d authHeader issueId =
     (case getApiKeyFromHeader authHeader of
        None \<Rightarrow> (errorResponse ''Authorization required'' UNAUTHORIZED, d)
      | Some apiKey \<Rightarrow>
          if apiKey = [] then (errorResponse ''Authorization required'' UNAUTHORIZED, d)
          else (case validateApiKey rt d apiKey of
             None \<Rightarrow> (errorResponse ''Invalid API key'' UNAUTHORIZED, d)
           | Some k \<Rightarrow>
               if \<not> verifyIssueOwnership d issueId k
               then (errorResponse ''Issue not found'' NOT_FOUND, d)
               else (case updateIssues (\<lambda>i. i\<lparr> falsePositive := True \<rparr>)
                            (\<lambda>i. issue_id i = issueId) (securityIssuesTable d) of
                       (tbl', returning) \<Rightarrow>
                         (successResponse (UpdatedIssue (get returning))
                            ''Issue marked as false positive'' OK,
                          d\<lparr> securityIssuesTable := tbl' \<rparr>))))"

text \<open>The body of a bulk update, as validated by \<open>IssueValidation.bulkUpdate\<close>.\<close>

record bulkUpdate =
  issueIds :: "string list"
  bulk_resolved :: "bool option"
  bulk_falsePositive :: "bool option"

text \<open>\<open>ids.join(', ')\<close>\<close>

fun joinWith :: "string \<Rightarrow> string list \<Rightarrow> string" where
  "joinWith sep [] = []"
| "joinWith sep [x] = x"
| "joinWith sep (x # y # ys) = x @ sep @ joinWith sep (y # ys)"

text \<open>\<open>updateData\<close>: only the fields present in the body are set.\<close>

definition applyUpdateData :: "bulkUpdate \<Rightarrow> securityIssue \<Rightarrow> securityIssue" where
  "applyUpdateData data i =
     (let i1 = (case bulk_resolved data of None \<Rightarrow> i | Some r \<Rightarrow> i\<lparr> resolved := r \<rparr>)
      in case bulk_falsePositive data of None \<Rightarrow> i1 | Some f \<Rightarrow> i1\<lparr> falsePositive := f \<rparr>)"

definition bulkUpdateIssues :: "runtime \<Rightarrow> db \<Rightarrow> string option \<Rightarrow> bulkUpdate \<Rightarrow> response \<times> db" where
  "bulkUpdateIssues rt d authHeader data =
     (case getApiKeyFromHeader authHeader of
        None \<Rightarrow> (errorResponse ''Authorization required'' UNAUTHORIZED, d)
      | Some apiKey \<Rightarrow>
          if apiKey = [] then (errorResponse ''Authorization required'' UNAUTHORIZED, d)
          else (case validateApiKey rt d apiKey of
             None \<Rightarrow> (errorResponse ''Invalid API key'' UNAUTHORIZED, d)
           | Some k \<Rightarrow>
               (let ownedIssueIds =
                      map (\<lambda>((i, s), p). issue_id i)
                        (filter (\<lambda>((i, s), p). issue_id i \<in> set (issueIds data) \<and> projectOwnedBy k p)
                           (issuesWithProject d));
                    unauthorizedIds = filter (\<lambda>x. x \<notin> set ownedIssueIds) (issueIds data)
                in if unauthorizedIds \<noteq> []
                   then (errorResponse
                           (''Some issues not found or unauthorized: '' @ joinWith '', '' unauthorizedIds)
                           NOT_FOUND, d)
                   else if bulk_resolved data = None \<and> bulk_falsePositive data = None
                   then (errorResponse ''No update fields provided'' BAD_REQUEST, d)
                   else (case updateIssues (applyUpdateData data)
                                (\<lambda>i. issue_id i \<in> set ownedIssueIds) (securityIssuesTable d) of
                           (tbl', updatedIssues) \<Rightarrow>
                             (successResponse (BulkUpdated (length updatedIssues) updatedIssues)
                                ''Issues updated successfully'' OK,
                              d\<lparr> securityIssuesTable := tbl' \<rparr>)))))"

section \<open>A reference JSON reader for the examples\<close>

text \<open>
  The results below hold for every behaviour of \<open>JSON.parse\<close>. To run the handlers on
  concrete texts, the examples use this reader of the JSON grammar: objects, arrays,
  strings with the single-character escapes, numbers, \<open>true\<close>, \<open>false\<close> and \<open>null\<close>. It
  rejects \<^verbatim>\<open>\u\<close> escapes, which the examples do not use. A later duplicate of a key wins,
  as in \<open>JSON.parse\<close>; the members are kept in reverse order for that.
\<close>

definition isJsonSpace :: "char \<Rightarrow> bool" where
  "isJsonSpace c = (c \<in> set [CHR 0x20, CHR 0x09, CHR 0x0A, CHR 0x0D])"

definition skipWs :: "string \<Rightarrow> string" where
  "skipWs s = dropWhile isJsonSpace s"

definition isDigit :: "char \<Rightarrow> bool" where
  "isDigit c = (c \<in> set ''0123456789'')"

definition digitsValue :: "string \<Rightarrow> nat" where
  "digitsValue ds = foldl (\<lambda>a c. 10 * a + (of_char c - 48)) 0 ds"

text \<open>\<open>-? int frac? exp?\<close>; no leading zero in front of another digit.\<close>

definition parseNumber :: "string \<Rightarrow> (real \<times> string) option" where
  "parseNumber s =
     (let neg = startsWith ''-'' s;
          s1 = (if neg then drop 1 s else s);
          ip = takeWhile isDigit s1;
          s2 = dropWhile isDigit s1;
          hasFrac = startsWith ''.'' s2;
          fp = (if hasFrac then takeWhile isDigit (drop 1 s2) else []);
          s3 = (if hasFrac then dropWhile isDigit (drop 1 s2) else s2);
          hasExp = (startsWith ''e'' s3 \<or> startsWith ''E'' s3);
          s4 = (if hasExp then drop 1 s3 else s3);
          expNeg = (hasExp \<and> startsWith ''-'' s4);
          s5 = (if hasExp \<and> (startsWith ''-'' s4 \<or> startsWith ''+'' s4) then drop 1 s4 else s4);
          ep = (if hasExp then takeWhile isDigit s5 else []);
          s6 = (if hasExp then dropWhile isDigit s5 else s5);
          mantissa = real (digitsValue ip) + real (digitsValue fp) / 10 ^ length fp;
          scaled = (if expNeg then mantissa / 10 ^ digitsValue ep else mantissa * 10 ^ digitsValue ep)
      in if ip = [] \<or> (1 < length ip \<and> startsWith ''0'' ip) \<or> (hasFrac \<and> fp = [])
            \<or> (hasExp \<and> ep = [])
         then None
         else Some (if neg then - scaled else scaled, s6))"

definition unescape :: "char \<Rightarrow> char option" where
  "unescape e =
     (if e = CHR 0x22 \<or> e = CHR 0x5C \<or> e = CHR ''/'' then Some e
      else if e = CHR ''b'' then Some (CHR 0x08)
      else if e = CHR ''f'' then Some (CHR 0x0C)
      else if e = CHR ''n'' then Some (CHR 0x0A)
      else if e = CHR ''r'' then Some (CHR 0x0D)
      else if e = CHR ''t'' then Some (CHR 0x09)
      else None)"

text \<open>The characters of a string after its opening quote, and the text after the closing one.\<close>

fun parseChars :: "string \<Rightarrow> (string \<times> string) option" where
  "parseChars [] = None"
| "parseChars [c] = (if c = CHR 0x22 then Some ([], []) else None)"
| "parseChars (c # e # r) =
     (if c = CHR 0x22 then Some ([], e # r)
      else if c = CHR 0x5C
      then (case unescape e of
              None \<Rightarrow> None
            | Some u \<Rightarrow> map_option (\<lambda>(str, rest). (u # str, rest)) (parseChars r))
      else if (of_char c :: nat) < 32 then None
      else map_option (\<lambda>(str, rest). (c # str, rest)) (parseChars (e # r)))"

text \<open>
  Values, array elements and object members. The first argument bounds the number of
  nested calls; twice the length of the text is enough, since every second call
  consumes a character.
\<close>

fun parseValue :: "nat \<Rightarrow> string \<Rightarrow> (json \<times> string) option"
  and parseElements :: "nat \<Rightarrow> string \<Rightarrow> (json list \<times> string) option"
  and parseMembers :: "nat \<Rightarrow> string \<Rightarrow> ((string \<times> json) list \<times> string) option"
where
  "parseValue 0 s = None"
| "parseValue (Suc n) s =
     (let t = skipWs s
      in if startsWith ''{'' t
         then (if startsWith ''}'' (skipWs (drop 1 t)) then Some (JObj [], drop 1 (skipWs (drop 1 t)))
               else map_option (\<lambda>(ms, r). (JObj (rev ms), r)) (parseMembers n (drop 1 t)))
         else if startsWith ''['' t
         then (if startsWith '']'' (skipWs (drop 1 t)) then Some (JArr [], drop 1 (skipWs (drop 1 t)))
               else map_option (\<lambda>(es, r). (JArr es, r)) (parseElements n (drop 1 t)))
         else if startsWith [CHR 0x22] t
         then map_option (\<lambda>(str, r). (JStr str, r)) (parseChars (drop 1 t))
         else if startsWith ''true'' t then Some (JBool True, drop 4 t)
         else if startsWith ''false'' t then Some (JBool False, drop 5 t)
         else if startsWith ''null'' t then Some (JNull, drop 4 t)
         else map_option (\<lambda>(x, r). (JNum x, r)) (parseNumber t))"
| "parseElements 0 s = None"
| "parseElements (Suc n) s =
     (case parseValue n s of
        None \<Rightarrow> None
      | Some (v, r) \<Rightarrow>
          (let t = skipWs r
           in if startsWith '','' t
              then map_option (\<lambda>(vs, r'). (v # vs, r')) (parseElements n (drop 1 t))
              else if startsWith '']'' t then Some ([v], drop 1 t)
              else None))"
| "parseMembers 0 s = None"
| "parseMembers (Suc n) s =
     (let t = skipWs s
      in if \<not> startsWith [CHR 0x22] t then None
         else (case parseChars (drop 1 t) of
                 None \<Rightarrow> None
               | Some (k, r) \<Rightarrow>
                   (let t1 = skipWs r
                    in if \<not> startsWith '':'' t1 then None
                       else (case parseValue n (drop 1 t1) of
                               None \<Rightarrow> None
                             | Some (v, r2) \<Rightarrow>
                                 (let t2 = skipWs r2
                                  in if startsWith '','' t2
                                     then map_option (\<lambda>(ms, r'). ((k, v) # ms, r'))
                                            (parseMembers n (drop 1 t2))
                                     else if startsWith ''}'' t2 then Some ([(k, v)], drop 1 t2)
                                     else None)))))"

definition jsonParse :: "string \<Rightarrow> json option" where
  "jsonParse s =
     (case parseValue (2 * length s + 2) s of
        None \<Rightarrow> None
      | Some (j, r) \<Rightarrow> if skipWs r = [] then Some j else None)"

section \<open>The specification's notions\<close>

text \<open>\<open>clamp(x, lo, hi)\<close> of the scoring formula.\<close>

definition clamp :: "real \<Rightarrow> real \<Rightarrow> real \<Rightarrow> real" where
  "clamp x lo hi = max lo (min hi x)"

text \<open>The number of findings of one severity in a list.\<close>

definition severityCount :: "string \<Rightarrow> vuln list \<Rightarrow> nat" where
  "severityCount s vs = length (filter (\<lambda>v. severity v = s) vs)"

text \<open>
  The call of the reasoning service fails: it throws, it returns empty text, or its output
  is unparseable (no candidate payload, a candidate that is no JSON, or JSON that does not
  fit the schema).
\<close>

definition upstreamFails :: "(string \<Rightarrow> json option) \<Rightarrow> upstream \<Rightarrow> bool" where
  "upstreamFails parse u =
     (case u of
        Throws \<Rightarrow> True
      | Text t \<Rightarrow>
          t = [] \<or> jsonText t = []
          \<or> (case parse (jsonText t) of
                None \<Rightarrow> True
              | Some j \<Rightarrow> VulnerabilityDetectionSchema_parse j = None))"

text \<open>
  An entry of the \<open>vulnerabilities\<close> list with one of the defects the specification names:
  a severity outside the four values, an empty \<open>type\<close>, \<open>category\<close> or \<open>filePath\<close>, a
  \<open>description\<close> or \<open>recommendation\<close> of fewer than 10 characters, or a \<open>confidenceScore\<close>
  outside \<open>[0, 1]\<close>.
\<close>

definition invalidEntry :: "json \<Rightarrow> bool" where
  "invalidEntry e =
     (case e of
        JObj kvs \<Rightarrow>
          (case map_of kvs ''severity'' of
             Some (JStr s) \<Rightarrow> s \<notin> set [''critical'', ''high'', ''medium'', ''low'']
           | _ \<Rightarrow> False)
          \<or> map_of kvs ''type'' = Some (JStr [])
          \<or> map_of kvs ''category'' = Some (JStr [])
          \<or> map_of kvs ''filePath'' = Some (JStr [])
          \<or> (case map_of kvs ''description'' of Some (JStr s) \<Rightarrow> length s < 10 | _ \<Rightarrow> False)
          \<or> (case map_of kvs ''recommendation'' of Some (JStr s) \<Rightarrow> length s < 10 | _ \<Rightarrow> False)
          \<or> (case map_of kvs ''confidenceScore'' of Some (JNum x) \<Rightarrow> x < 0 \<or> 1 < x | _ \<Rightarrow> False)
      | _ \<Rightarrow> False)"

text \<open>
  The confidence the specification expects in the stored row: the supplied value when it is
  present and not zero, and 0.8 otherwise.
\<close>

definition storedConfidence :: "real option \<Rightarrow> real" where
  "storedConfidence c = (if c = None \<or> c = Some 0 then 0.8 else the c)"

text \<open>
  The principal of a request: the id of the active API key that its \<open>Authorization\<close> header
  carries, if any.
\<close>

definition principal :: "runtime \<Rightarrow> db \<Rightarrow> string option \<Rightarrow> string option" where
  "principal rt d authHeader =
     (case getApiKeyFromHeader authHeader of
        None \<Rightarrow> None
      | Some apiKey \<Rightarrow> if apiKey = [] then None else validateApiKey rt d apiKey)"

text \<open>
  The ownership chain: a session belongs to the principal of its project, a finding to the
  principal of the project of its session.
\<close>

definition ownsSession :: "db \<Rightarrow> string \<Rightarrow> string \<Rightarrow> bool" where
  "ownsSession d k sessionId =
     (\<exists>s\<in>set (analysisSessionsTable d). \<exists>p\<in>set (projectsTable d).
        session_id s = sessionId \<and> projectId s = project_id p \<and> apiKeyId p = k)"

definition ownsIssue :: "db \<Rightarrow> string \<Rightarrow> string \<Rightarrow> bool" where
  "ownsIssue d k issueId =
     (\<exists>i\<in>set (securityIssuesTable d). \<exists>s\<in>set (analysisSessionsTable d). \<exists>p\<in>set (projectsTable d).
        issue_id i = issueId \<and> analysisSessionId i = session_id s \<and> projectId s = project_id p
        \<and> apiKeyId p = k)"

text \<open>The target does not exist; the target exists and is not the caller's.\<close>

definition sessionAbsent :: "db \<Rightarrow> string \<Rightarrow> bool" where
  "sessionAbsent d sessionId = (sessionId \<notin> set (map session_id (analysisSessionsTable d)))"

definition sessionForeign :: "db \<Rightarrow> string \<Rightarrow> string \<Rightarrow> bool" where
  "sessionForeign d k sessionId =
     (sessionId \<in> set (map session_id (analysisSessionsTable d)) \<and> \<not> ownsSession d k sessionId)"

definition issueAbsent :: "db \<Rightarrow> string \<Rightarrow> bool" where
  "issueAbsent d issueId = (issueId \<notin> set (map issue_id (securityIssuesTable d)))"

definition issueForeign :: "db \<Rightarrow> string \<Rightarrow> string \<Rightarrow> bool" where
  "issueForeign d k issueId =
     (issueId \<in> set (map issue_id (securityIssuesTable d)) \<and> \<not> ownsIssue d k issueId)"

fun statusCode :: "response \<Rightarrow> nat" where
  "statusCode (errorResponse message st) = st"
| "statusCode (successResponse data message st) = st"

text \<open>The text contains a code fence, three backticks in a row.\<close>

fun hasFence :: "string \<Rightarrow> bool" where
  "hasFence [] = False"
| "hasFence (c # cs) = (startsWith ''```'' (c # cs) \<or> hasFence cs)"

text \<open>
  The first balanced top-level \<open>{...}\<close> substring: from an opening brace to the brace that
  closes it, for the first opening brace that is closed at all. \<open>balancedTail d\<close> is the
  shortest prefix that closes \<open>d + 1\<close> open braces.
\<close>

fun balancedTail :: "nat \<Rightarrow> string \<Rightarrow> string option" where
  "balancedTail d [] = None"
| "balancedTail d (c # cs) =
     (if c = CHR ''}''
      then (case d of 0 \<Rightarrow> Some [c] | Suc d' \<Rightarrow> map_option (Cons c) (balancedTail d' cs))
      else if c = CHR ''{'' then map_option (Cons c) (balancedTail (Suc d) cs)
      else map_option (Cons c) (balancedTail d cs))"

fun firstBalanced :: "string \<Rightarrow> string option" where
  "firstBalanced [] = None"
| "firstBalanced (c # cs) =
     (if c = CHR ''{''
      then (case balancedTail 0 cs of Some b \<Rightarrow> Some (c # b) | None \<Rightarrow> firstBalanced cs)
      else firstBalanced cs)"

text \<open>
  The text from the first opening brace to the last closing brace after it; empty when
  there is none.
\<close>

definition braceSpan :: "string \<Rightarrow> string" where
  "braceSpan text =
     (let t = dropWhile (\<lambda>c. c \<noteq> CHR ''{'') text
      in if CHR ''}'' \<in> set t then rev (dropWhile (\<lambda>c. c \<noteq> CHR ''}'') (rev t)) else [])"

text \<open>
  The score of the specification:
  \<open>clamp(10 - (3 critical + 2 high + 1 medium + 0.5 low), 0, 10)\<close> over the per-severity
  counts of a list of findings.
\<close>

definition aggregateScore :: "vuln list \<Rightarrow> real" where
  "aggregateScore vs =
     clamp (10 - (3 * real (severityCount ''critical'' vs) + 2 * real (severityCount ''high'' vs)
                  + 1 * real (severityCount ''medium'' vs) + 0.5 * real (severityCount ''low'' vs)))
       0 10"

text \<open>
  The fields a bulk update supplies, written into a row: a field missing from the body
  keeps its value.
\<close>

definition withSupplied :: "bulkUpdate \<Rightarrow> securityIssue \<Rightarrow> securityIssue" where
  "withSupplied data i =
     i\<lparr> resolved := (case bulk_resolved data of None \<Rightarrow> resolved i | Some b \<Rightarrow> b),
        falsePositive := (case bulk_falsePositive data of None \<Rightarrow> falsePositive i | Some b \<Rightarrow> b) \<rparr>"

section \<open>Example data\<close>

text \<open>A finding of a given severity, with an optional confidence score.\<close>

definition finding :: "string \<Rightarrow> real option \<Rightarrow> vuln" where
  "finding s c =
     \<lparr> severity = s, type = ''XSS'', category = ''Input'', filePath = ''a.js'',
       lineNumber = None, codeSnippet = None, description = ''0123456789'',
       recommendation = ''0123456789'', confidenceScore = c \<rparr>"

text \<open>
  A payload with three findings: a critical one with confidence 0, a low one without a
  confidence and a high one with confidence 0.5.
\<close>

definition inner3 :: string where
  "inner3 =
     ''\"vulnerabilities\":['' @
     ''{\"severity\":\"critical\",\"type\":\"XSS\",\"category\":\"Input\",\"filePath\":\"a.js\",'' @
     ''\"description\":\"0123456789\",\"recommendation\":\"0123456789\",\"confidenceScore\":0},'' @
     ''{\"severity\":\"low\",\"type\":\"XSS\",\"category\":\"Input\",\"filePath\":\"a.js\",'' @
     ''\"description\":\"0123456789\",\"recommendation\":\"0123456789\"},'' @
     ''{\"severity\":\"high\",\"type\":\"XSS\",\"category\":\"Input\",\"filePath\":\"a.js\",'' @
     ''\"description\":\"0123456789\",\"recommendation\":\"0123456789\",\"confidenceScore\":0.5}'' @
     '']''"

definition payload3 :: string where
  "payload3 = ''{'' @ inner3 @ ''}''"

definition findings3 :: "vuln list" where
  "findings3 = [finding ''critical'' (Some 0), finding ''low'' None, finding ''high'' (Some 0.5)]"

text \<open>The response of the reasoning service: prose, the fenced payload, prose.\<close>

definition answer3 :: string where
  "answer3 = ''Here is the report: ```json '' @ payload3 @ '' ``` Done.''"

text \<open>
  A runtime: a stand-in digest, the reference reader, a service that answers \<open>answer3\<close>
  for the project \<open>demo\<close> and fails otherwise, distinct identifiers and a running clock.
\<close>

definition rt0 :: runtime where
  "rt0 =
     \<lparr> sha256 = (\<lambda>s. ''#'' @ s),
       JSON_parse = jsonParse,
       generateContent = (\<lambda>c n. if n = ''demo'' then Text answer3 else Throws),
       randomUUID = (\<lambda>k. ''u'' @ replicate k (CHR ''x'')),
       now = (\<lambda>k. 1000 + int k) \<rparr>"

text \<open>
  A store with two principals \<open>k1\<close> and \<open>k2\<close>. \<open>k1\<close> owns the projects \<open>demo\<close> and \<open>quiet\<close>;
  \<open>k2\<close> owns the project \<open>other\<close>, which has one session \<open>s9\<close> with one finding \<open>i9\<close>.
\<close>

definition session9 :: analysisSession where
  "session9 =
     \<lparr> session_id = ''s9'', projectId = ''p9'', status = ''completed'', overallScore = Some 8,
       totalIssues = 1, criticalIssues = 0, highIssues = 1, mediumIssues = 0, lowIssues = 0,
       supportedFiles = None, processingTimeMs = Some 5, aiModelUsed = Some ''gemini-2.5-flash-lite'',
       createdAt = 10, completedAt = Some 15 \<rparr>"

definition issue9 :: securityIssue where
  "issue9 =
     \<lparr> severity = ''high'', type = ''XSS'', category = ''Input'', filePath = ''b.js'',
       lineNumber = Some 3, codeSnippet = None, description = ''0123456789'',
       recommendation = ''0123456789'', confidenceScore = Some 0.9,
       issue_id = ''i9'', analysisSessionId = ''s9'', falsePositive = False, resolved = False,
       issueCreatedAt = 15 \<rparr>"

definition db0 :: db where
  "db0 =
     \<lparr> apiKeysTable =
         [\<lparr> key_id = ''k1'', keyHash = ''#secret1'', isActive = True \<rparr>,
          \<lparr> key_id = ''k2'', keyHash = ''#secret2'', isActive = True \<rparr>],
       projectsTable =
         [\<lparr> project_id = ''p1'', apiKeyId = ''k1'', name = ''demo'', content = ''eval(x)'',
            lastAnalyzedAt = None, updatedAt = 1 \<rparr>,
          \<lparr> project_id = ''p2'', apiKeyId = ''k1'', name = ''quiet'', content = ''ok'',
            lastAnalyzedAt = None, updatedAt = 2 \<rparr>,
          \<lparr> project_id = ''p9'', apiKeyId = ''k2'', name = ''other'', content = ''ok'',
            lastAnalyzedAt = Some 15, updatedAt = 15 \<rparr>],
       analysisSessionsTable = [session9],
       securityIssuesTable = [issue9] \<rparr>"

text \<open>What the analysis of the project \<open>demo\<close> by \<open>k1\<close> stores and returns in \<open>db0\<close>.\<close>

definition session1 :: analysisSession where
  "session1 =
     \<lparr> session_id = ''u'', projectId = ''p1'', status = ''completed'', overallScore = Some 4.5,
       totalIssues = 3, criticalIssues = 1, highIssues = 1, mediumIssues = 0, lowIssues = 1,
       supportedFiles = None, processingTimeMs = Some 1, aiModelUsed = Some ''gemini-2.5-flash-lite'',
       createdAt = 1000, completedAt = Some 1003 \<rparr>"

definition storedFinding :: "string \<Rightarrow> real \<Rightarrow> string \<Rightarrow> int \<Rightarrow> securityIssue" where
  "storedFinding s c i t =
     \<lparr> severity = s, type = ''XSS'', category = ''Input'', filePath = ''a.js'',
       lineNumber = None, codeSnippet = None, description = ''0123456789'',
       recommendation = ''0123456789'', confidenceScore = Some c,
       issue_id = i, analysisSessionId = ''u'', falsePositive = False, resolved = False,
       issueCreatedAt = t \<rparr>"

definition issues1 :: "securityIssue list" where
  "issues1 =
     [storedFinding ''critical'' 0.8 ''ux'' 1004,
      storedFinding ''low'' 0.8 ''uxx'' 1005,
      storedFinding ''high'' 0.5 ''uxxx'' 1006]"

definition db1 :: db where
  "db1 =
     db0\<lparr> projectsTable :=
            [\<lparr> project_id = ''p1'', apiKeyId = ''k1'', name = ''demo'', content = ''eval(x)'',
               lastAnalyzedAt = Some 1007, updatedAt = 1008 \<rparr>,
             \<lparr> project_id = ''p2'', apiKeyId = ''k1'', name = ''quiet'', content = ''ok'',
               lastAnalyzedAt = None, updatedAt = 2 \<rparr>,
             \<lparr> project_id = ''p9'', apiKeyId = ''k2'', name = ''other'', content = ''ok'',
               lastAnalyzedAt = Some 15, updatedAt = 15 \<rparr>],
          analysisSessionsTable := [session9, session1],
          securityIssuesTable := issue9 # issues1 \<rparr>"

text \<open>
  What the analysis of the project \<open>quiet\<close> by \<open>k1\<close> stores and returns in \<open>db0\<close>: the
  service throws for it.
\<close>

definition session2 :: analysisSession where
  "session2 =
     \<lparr> session_id = ''u'', projectId = ''p2'', status = ''completed'', overallScore = Some 10,
       totalIssues = 0, criticalIssues = 0, highIssues = 0, mediumIssues = 0, lowIssues = 0,
       supportedFiles = None, processingTimeMs = Some 1, aiModelUsed = Some ''gemini-2.5-flash-lite'',
       createdAt = 1000, completedAt = Some 1003 \<rparr>"

definition db2 :: db where
  "db2 =
     db0\<lparr> projectsTable :=
            [\<lparr> project_id = ''p1'', apiKeyId = ''k1'', name = ''demo'', content = ''eval(x)'',
               lastAnalyzedAt = None, updatedAt = 1 \<rparr>,
             \<lparr> project_id = ''p2'', apiKeyId = ''k1'', name = ''quiet'', content = ''ok'',
               lastAnalyzedAt = Some 1004, updatedAt = 1005 \<rparr>,
             \<lparr> project_id = ''p9'', apiKeyId = ''k2'', name = ''other'', content = ''ok'',
               lastAnalyzedAt = Some 15, updatedAt = 15 \<rparr>],
          analysisSessionsTable := [session9, session2] \<rparr>"

text \<open>
  A fenced payload of two entries: the first validates, the second has the severity
  \<open>info\<close>.
\<close>

definition entryHigh :: json where
  "entryHigh =
     JObj [(''confidenceScore'', JNum 0.5), (''recommendation'', JStr ''0123456789''),
           (''description'', JStr ''0123456789''), (''filePath'', JStr ''a.js''),
           (''category'', JStr ''Input''), (''type'', JStr ''XSS''), (''severity'', JStr ''high'')]"

definition entryInfo :: json where
  "entryInfo =
     JObj [(''recommendation'', JStr ''0123456789''), (''description'', JStr ''0123456789''),
           (''filePath'', JStr ''a.js''), (''category'', JStr ''Input''), (''type'', JStr ''XSS''),
           (''severity'', JStr ''info'')]"

definition answer4 :: string where
  "answer4 =
     ''```json {\"vulnerabilities\":['' @
     ''{\"severity\":\"high\",\"type\":\"XSS\",\"category\":\"Input\",\"filePath\":\"a.js\",'' @
     ''\"description\":\"0123456789\",\"recommendation\":\"0123456789\",\"confidenceScore\":0.5},'' @
     ''{\"severity\":\"info\",\"type\":\"XSS\",\"category\":\"Input\",\"filePath\":\"a.js\",'' @
     ''\"description\":\"0123456789\",\"recommendation\":\"0123456789\"}'' @
     '']} ```''"

text \<open>The store \<open>db0\<close> without its session and finding.\<close>

definition dbEmpty :: db where
  "dbEmpty = db0\<lparr> analysisSessionsTable := [], securityIssuesTable := [] \<rparr>"

text \<open>The store \<open>db0\<close> after its finding was resolved.\<close>

definition dbResolved :: db where
  "dbResolved = db0\<lparr> securityIssuesTable := [issue9\<lparr> resolved := True \<rparr>] \<rparr>"

text \<open>The store \<open>db0\<close> after its finding was marked as a false positive.\<close>

definition dbMarked :: db where
  "dbMarked = db0\<lparr> securityIssuesTable := [issue9\<lparr> falsePositive := True \<rparr>] \<rparr>"

text \<open>A bulk update that reopens the finding \<open>i9\<close> and marks it as a false positive.\<close>

definition reopenAndMark :: bulkUpdate where
  "reopenAndMark = \<lparr> issueIds = [''i9''], bulk_resolved = Some False, bulk_falsePositive = Some True \<rparr>"

text \<open>
  Two texts that hold the fenced payload \<open>payload3\<close>: in the first the prose in front
  quotes an empty object between fences; the second is a fenced block without prose whose
  payload has one finding, with a code snippet that ends in a closing brace and a fence.
\<close>

definition answer5 :: string where
  "answer5 = ''Write ```{}``` for no finding. ```json '' @ payload3 @ '' ```''"

definition payload6 :: string where
  "payload6 =
     ''{\"vulnerabilities\":['' @
     ''{\"severity\":\"high\",\"type\":\"XSS\",\"category\":\"Input\",\"filePath\":\"a.md\",'' @
     ''\"codeSnippet\":\"if (x) { run() }```\",'' @
     ''\"description\":\"0123456789\",\"recommendation\":\"0123456789\"}'' @
     '']}''"

definition answer6 :: string where
  "answer6 = ''```json '' @ payload6 @ '' ```''"

definition finding6 :: vuln where
  "finding6 =
     \<lparr> severity = ''high'', type = ''XSS'', category = ''Input'', filePath = ''a.md'',
       lineNumber = None, codeSnippet = Some ''if (x) { run() }```'', description = ''0123456789'',
       recommendation = ''0123456789'', confidenceScore = None \<rparr>"

text \<open>
  The store \<open>db0\<close> without its finding: the session \<open>s9\<close> of \<open>k2\<close> is there and has no
  finding.
\<close>

definition dbNoIssues :: db where
  "dbNoIssues = db0\<lparr> securityIssuesTable := [] \<rparr>"

text \<open>
  In the store \<open>db1\<close>, \<open>k1\<close> owns the findings \<open>ux\<close>, \<open>uxx\<close> and \<open>uxxx\<close>, and \<open>k2\<close> owns \<open>i9\<close>.
  The stores after \<open>k1\<close> resolved \<open>uxx\<close>, after \<open>k1\<close> marked \<open>uxx\<close>, and after the bulk update
  \<open>resolveTwo\<close> of \<open>k1\<close>, which resolves \<open>ux\<close> and \<open>uxxx\<close>.
\<close>

definition db1Resolved :: db where
  "db1Resolved =
     db1\<lparr> securityIssuesTable :=
            [issue9,
             storedFinding ''critical'' 0.8 ''ux'' 1004,
             (storedFinding ''low'' 0.8 ''uxx'' 1005)\<lparr> resolved := True \<rparr>,
             storedFinding ''high'' 0.5 ''uxxx'' 1006] \<rparr>"

definition db1Marked :: db where
  "db1Marked =
     db1\<lparr> securityIssuesTable :=
            [issue9,
             storedFinding ''critical'' 0.8 ''ux'' 1004,
             (storedFinding ''low'' 0.8 ''uxx'' 1005)\<lparr> falsePositive := True \<rparr>,
             storedFinding ''high'' 0.5 ''uxxx'' 1006] \<rparr>"

definition resolveTwo :: bulkUpdate where
  "resolveTwo = \<lparr> issueIds = [''ux'', ''uxxx''], bulk_resolved = Some True, bulk_falsePositive = None \<rparr>"

definition db1Bulk :: db where
  "db1Bulk =
     db1\<lparr> securityIssuesTable :=
            [issue9,
             (storedFinding ''critical'' 0.8 ''ux'' 1004)\<lparr> resolved := True \<rparr>,
             storedFinding ''low'' 0.8 ''uxx'' 1005,
             (storedFinding ''high'' 0.5 ''uxxx'' 1006)\<lparr> resolved := True \<rparr>] \<rparr>"

section \<open>Severity aggregation\<close>

lemma severityCount_counts:
  "critical (calcIssueCounts vs) = severityCount ''critical'' vs"
  "high (calcIssueCounts vs) = severityCount ''high'' vs"
  "medium (calcIssueCounts vs) = severityCount ''medium'' vs"
  "low (calcIssueCounts vs) = severityCount ''low'' vs"
  by (simp_all add: calcIssueCounts_def countSeverity_def severityCount_def)

lemma calcOverallScore_clamp:
  "calcOverallScore vs =
     clamp (10 - (3 * real (severityCount ''critical'' vs) + 2 * real (severityCount ''high'' vs)
                  + 1 * real (severityCount ''medium'' vs) + 0.5 * real (severityCount ''low'' vs)))
       0 10"
proof (cases vs)
  case Nil
  then show ?thesis
    by (simp add: calcOverallScore_def clamp_def severityCount_def)
next
  case (Cons v ws)
  have "min 10 (10 - x) = 10 - x" if "0 \<le> x" for x :: real
    using that by simp
  then show ?thesis
    using Cons
    by (simp add: calcOverallScore_def clamp_def severityCount_counts Let_def algebra_simps)
qed

section \<open>Validated findings and the analysis handler\<close>

lemma countSeverity_sum:
  "\<forall>v\<in>set vs. severity v \<in> set severityValues \<Longrightarrow>
   countSeverity ''critical'' vs + countSeverity ''high'' vs + countSeverity ''medium'' vs
     + countSeverity ''low'' vs = length vs"
  by (induction vs) (auto simp: countSeverity_def severityValues_def)

lemma those_map_Some:
  "those (map f es) = Some vs \<Longrightarrow> list_all2 (\<lambda>e v. f e = Some v) es vs"
  by (induction es arbitrary: vs) (auto split: option.splits)

lemma those_map_None:
  "e \<in> set es \<Longrightarrow> f e = None \<Longrightarrow> those (map f es) = None"
  by (induction es) (auto split: option.splits)

lemma zEnum_Some: "zEnum vs x = Some s \<Longrightarrow> s \<in> set vs"
  by (auto simp: zEnum_def split: option.splits json.splits if_splits)

lemma zStringMin_Some: "zStringMin n x = Some s \<Longrightarrow> n \<le> length s"
  by (auto simp: zStringMin_def split: option.splits json.splits if_splits)

lemma zNumberMinMaxOptional_Some:
  "zNumberMinMaxOptional lo hi x = Some (Some r) \<Longrightarrow> lo \<le> r \<and> r \<le> hi"
  by (auto simp: zNumberMinMaxOptional_def split: option.splits json.splits if_splits)

lemma zVulnerability_Some:
  assumes "zVulnerability e = Some v"
  shows "severity v \<in> set severityValues \<and> type v \<noteq> [] \<and> category v \<noteq> [] \<and> filePath v \<noteq> []
         \<and> 10 \<le> length (description v) \<and> 10 \<le> length (recommendation v)
         \<and> (\<forall>x. confidenceScore v = Some x \<longrightarrow> 0 \<le> x \<and> x \<le> 1)"
proof (cases e)
  case (JObj kvs)
  with assms obtain sev ty cat fp ln cs de re co where
    fields: "zEnum severityValues (map_of kvs ''severity'') = Some sev"
      "zStringMin 1 (map_of kvs ''type'') = Some ty"
      "zStringMin 1 (map_of kvs ''category'') = Some cat"
      "zStringMin 1 (map_of kvs ''filePath'') = Some fp"
      "zStringMin 10 (map_of kvs ''description'') = Some de"
      "zStringMin 10 (map_of kvs ''recommendation'') = Some re"
      "zNumberMinMaxOptional 0 1 (map_of kvs ''confidenceScore'') = Some co"
    and v: "v = \<lparr> severity = sev, type = ty, category = cat, filePath = fp, lineNumber = ln,
                   codeSnippet = cs, description = de, recommendation = re, confidenceScore = co \<rparr>"
    by (auto split: Option.bind_splits)
  from fields(2-4) have "1 \<le> length ty" "1 \<le> length cat" "1 \<le> length fp"
    by (auto dest: zStringMin_Some)
  then have "ty \<noteq> []" "cat \<noteq> []" "fp \<noteq> []"
    by auto
  moreover note zEnum_Some [OF fields(1)] zStringMin_Some [OF fields(5)] zStringMin_Some [OF fields(6)]
  moreover have "0 \<le> x \<and> x \<le> 1" if "co = Some x" for x
    using fields(7) that zNumberMinMaxOptional_Some by blast
  ultimately show ?thesis
    by (simp add: v)
qed (use assms in simp_all)

lemma schema_parse_valid:
  assumes "VulnerabilityDetectionSchema_parse j = Some vs" and "v \<in> set vs"
  shows "\<exists>e. zVulnerability e = Some v"
proof -
  from assms(1) obtain es where "those (map zVulnerability es) = Some vs"
    by (auto simp: VulnerabilityDetectionSchema_parse_def split: json.splits option.splits)
  then have "list_all2 (\<lambda>e v. zVulnerability e = Some v) es vs"
    by (rule those_map_Some)
  with assms(2) show ?thesis
    by (auto simp: list_all2_conv_all_nth in_set_conv_nth)
qed

lemma analyzeCode_cases:
  "analyzeCode P u n = [] \<or>
   (\<exists>t j vs. u = Text t \<and> P (jsonText t) = Some j
       \<and> VulnerabilityDetectionSchema_parse j = Some vs \<and> analyzeCode P u n = vs)"
proof (cases u)
  case Throws
  then show ?thesis by (simp add: analyzeCode_def)
next
  case (Text t)
  show ?thesis
  proof (cases "P (jsonText t)")
    case None
    with Text show ?thesis by (simp add: analyzeCode_def)
  next
    case (Some j)
    show ?thesis
    proof (cases "VulnerabilityDetectionSchema_parse j")
      case None
      with Some Text show ?thesis by (simp add: analyzeCode_def)
    next
      case (Some vs)
      have "filePath v \<noteq> []" if "v \<in> set vs" for v
        using schema_parse_valid [OF Some that] zVulnerability_Some by blast
      then have "map (\<lambda>vuln. vuln\<lparr> filePath := (if filePath vuln = [] then n @ ''/main.js''
                                                   else filePath vuln) \<rparr>) vs = vs"
        by (simp add: map_idI)
      with Some \<open>P (jsonText t) = Some j\<close> Text show ?thesis
        by (auto simp: analyzeCode_def)
    qed
  qed
qed

lemma analyzeCode_severity:
  "v \<in> set (analyzeCode P u n) \<Longrightarrow> severity v \<in> set severityValues"
  using analyzeCode_cases [of P u n] schema_parse_valid zVulnerability_Some
  by (metis empty_iff list.set(1))

lemma startAnalysis_success:
  assumes "startAnalysis rt d authHeader pid = (successResponse pl msg st, d')"
  shows "\<exists>apiKey k proj vulns.
           getApiKeyFromHeader authHeader = Some apiKey \<and> apiKey \<noteq> []
         \<and> validateApiKey rt d apiKey = Some k
         \<and> verifyProjectOwnership d pid k
         \<and> get (filter (\<lambda>p. project_id p = pid) (projectsTable d)) = Some proj
         \<and> vulns = analyzeCode (JSON_parse rt) (generateContent rt (content proj) (name proj)) (name proj)
         \<and> session_id (sessionValues rt pid vulns) \<notin> set (map session_id (analysisSessionsTable d))
         \<and> pl = AnalysisResults (sessionValues rt pid vulns)
                  (fst (storeIssues rt (session_id (sessionValues rt pid vulns)) 0 vulns (securityIssuesTable d)))
         \<and> msg = ''Analysis completed successfully'' \<and> st = CREATED
         \<and> analysisSessionsTable d' = analysisSessionsTable d @ [sessionValues rt pid vulns]
         \<and> securityIssuesTable d' =
              snd (storeIssues rt (session_id (sessionValues rt pid vulns)) 0 vulns (securityIssuesTable d))
         \<and> apiKeysTable d' = apiKeysTable d"
  using assms
  by (auto simp: startAnalysis_def Let_def split: option.splits if_splits prod.splits)

section \<open>Runs of the analysis handler\<close>

lemma analyze_answer3: "analyzeCode jsonParse (Text answer3) ''demo'' = findings3"
  by code_simp

lemma run_demo:
  "startAnalysis rt0 db0 (Some ''Bearer secret1'') ''p1'' =
     (successResponse (AnalysisResults session1 issues1) ''Analysis completed successfully'' CREATED, db1)"
  by code_simp

lemma run_quiet:
  "startAnalysis rt0 db0 (Some ''Bearer secret1'') ''p2'' =
     (successResponse (AnalysisResults session2 []) ''Analysis completed successfully'' CREATED, db2)"
  by code_simp

text \<open>
  C2. For every list of findings whose severities are among the four values of the schema,
  the four counts of the aggregation add up to the number of findings; and whenever
  \<open>startAnalysis\<close> succeeds, the counts of the session it returns add up to its
  \<open>totalIssues\<close>, and that session is the row stored under its id.
\<close>

theorem counts_sum_totalIssues:
  "(set (map severity vs) \<subseteq> set severityValues \<longrightarrow>
      critical (calcIssueCounts vs) + high (calcIssueCounts vs) + medium (calcIssueCounts vs)
        + low (calcIssueCounts vs) = length vs)
   \<and> (startAnalysis rt d authHeader pid
         = (successResponse (AnalysisResults session issues) msg st, d') \<longrightarrow>
        criticalIssues session + highIssues session + mediumIssues session + lowIssues session
          = totalIssues session
        \<and> filter (\<lambda>s. session_id s = session_id session) (analysisSessionsTable d') = [session])"
proof (intro conjI impI)
  assume "set (map severity vs) \<subseteq> set severityValues"
  then have "\<forall>v\<in>set vs. severity v \<in> set severityValues"
    by auto
  then show "critical (calcIssueCounts vs) + high (calcIssueCounts vs) + medium (calcIssueCounts vs)
        + low (calcIssueCounts vs) = length vs"
    using countSeverity_sum [of vs] by (simp add: calcIssueCounts_def)
next
  assume run: "startAnalysis rt d authHeader pid
         = (successResponse (AnalysisResults session issues) msg st, d')"
  from startAnalysis_success [OF run] obtain vulns where
    v: "\<exists>u n. vulns = analyzeCode (JSON_parse rt) u n"
    and s: "session = sessionValues rt pid vulns"
    and f: "session_id session \<notin> set (map session_id (analysisSessionsTable d))"
    and t: "analysisSessionsTable d' = analysisSessionsTable d @ [session]"
    by auto
  from v have "\<forall>v\<in>set vulns. severity v \<in> set severityValues"
    using analyzeCode_severity by blast
  then show "criticalIssues session + highIssues session + mediumIssues session + lowIssues session
          = totalIssues session"
    using countSeverity_sum [of vulns] by (simp add: s sessionValues_def calcIssueCounts_def Let_def)
  from f have "filter (\<lambda>s. session_id s = session_id session) (analysisSessionsTable d) = []"
    by (fastforce simp: filter_empty_conv image_iff)
  then show "filter (\<lambda>s. session_id s = session_id session) (analysisSessionsTable d') = [session]"
    by (simp add: t)
qed

theorem counts_sum_totalIssues_witness:
  "set (map severity findings3) \<subseteq> set severityValues
   \<and> critical (calcIssueCounts findings3) + high (calcIssueCounts findings3)
       + medium (calcIssueCounts findings3) + low (calcIssueCounts findings3) = length findings3
   \<and> startAnalysis rt0 db0 (Some ''Bearer secret1'') ''p1''
       = (successResponse (AnalysisResults session1 issues1) ''Analysis completed successfully'' CREATED, db1)
   \<and> criticalIssues session1 + highIssues session1 + mediumIssues session1 + lowIssues session1
       = totalIssues session1
   \<and> filter (\<lambda>s. session_id s = session_id session1) (analysisSessionsTable db1) = [session1]"
proof -
  have a: "set (map severity findings3) \<subseteq> set severityValues"
    by (simp add: findings3_def finding_def severityValues_def)
  show ?thesis
    using a run_demo
      counts_sum_totalIssues [of findings3 rt0 db0 "Some ''Bearer secret1''" "''p1''" session1 issues1
        "''Analysis completed successfully''" CREATED db1]
    by simp
qed

lemma upstreamFails_examples:
  "upstreamFails jsonParse Throws"
  "upstreamFails jsonParse (Text [])"
  "upstreamFails jsonParse (Text ''I found nothing to report.'')"
  "upstreamFails jsonParse (Text ''{not json}'')"
  "upstreamFails jsonParse (Text ''{\"vulnerabilities\": 3}'')"
  by code_simp+

text \<open>
  C3. When the call of the reasoning service fails (it throws, returns empty text, or its
  output is unparseable), \<open>startAnalysis\<close>, called by a principal for a project it
  owns and with a fresh session id, answers with a success: the session has the status
  \<open>completed\<close>, no issues and the score 10, and it is stored; no issue is stored.
\<close>

theorem upstream_failure_absorbed:
  assumes "getApiKeyFromHeader authHeader = Some apiKey" and "apiKey \<noteq> []"
    and "validateApiKey rt d apiKey = Some k"
    and "verifyProjectOwnership d pid k"
    and "get (filter (\<lambda>p. project_id p = pid) (projectsTable d)) = Some proj"
    and "upstreamFails (JSON_parse rt) (generateContent rt (content proj) (name proj))"
    and "randomUUID rt 0 \<notin> set (map session_id (analysisSessionsTable d))"
  shows "\<exists>session d'.
           startAnalysis rt d authHeader pid =
             (successResponse (AnalysisResults session []) ''Analysis completed successfully'' CREATED, d')
         \<and> status session = ''completed'' \<and> totalIssues session = 0
         \<and> overallScore session = Some 10
         \<and> analysisSessionsTable d' = analysisSessionsTable d @ [session]
         \<and> securityIssuesTable d' = securityIssuesTable d"
proof -
  have "analyzeCode (JSON_parse rt) (generateContent rt (content proj) (name proj)) (name proj) = []"
    using assms(6)
    by (auto simp: upstreamFails_def analyzeCode_def split: upstream.splits option.splits)
  then show ?thesis
    using assms(1-5,7)
    by (simp add: startAnalysis_def sessionValues_def calcOverallScore_def Let_def)
qed

theorem upstream_failure_absorbed_witness:
  "getApiKeyFromHeader (Some ''Bearer secret1'') = Some ''secret1''
   \<and> validateApiKey rt0 db0 ''secret1'' = Some ''k1''
   \<and> verifyProjectOwnership db0 ''p2'' ''k1''
   \<and> upstreamFails (JSON_parse rt0) (generateContent rt0 ''ok'' ''quiet'')
   \<and> randomUUID rt0 0 \<notin> set (map session_id (analysisSessionsTable db0))
   \<and> startAnalysis rt0 db0 (Some ''Bearer secret1'') ''p2''
       = (successResponse (AnalysisResults session2 []) ''Analysis completed successfully'' CREATED, db2)
   \<and> status session2 = ''completed'' \<and> totalIssues session2 = 0 \<and> overallScore session2 = Some 10"
proof -
  have a: "getApiKeyFromHeader (Some ''Bearer secret1'') = Some ''secret1''"
    by (simp add: getApiKeyFromHeader_def startsWith_def)
  have b: "validateApiKey rt0 db0 ''secret1'' = Some ''k1''"
    by (simp add: validateApiKey_def rt0_def db0_def get_def)
  have c: "verifyProjectOwnership db0 ''p2'' ''k1''"
    by (simp add: verifyProjectOwnership_def db0_def get_def)
  have d: "get (filter (\<lambda>p. project_id p = ''p2'') (projectsTable db0))
            = Some \<lparr> project_id = ''p2'', apiKeyId = ''k1'', name = ''quiet'', content = ''ok'',
                     lastAnalyzedAt = None, updatedAt = 2 \<rparr>"
    by (simp add: db0_def get_def)
  have e: "upstreamFails (JSON_parse rt0) (generateContent rt0 ''ok'' ''quiet'')"
    by (simp add: upstreamFails_def rt0_def)
  have f: "randomUUID rt0 0 \<notin> set (map session_id (analysisSessionsTable db0))"
    by (simp add: rt0_def db0_def session9_def)
  from upstream_failure_absorbed [OF a _ b c d _ f] e
  have "\<exists>session d'. startAnalysis rt0 db0 (Some ''Bearer secret1'') ''p2'' =
             (successResponse (AnalysisResults session []) ''Analysis completed successfully'' CREATED, d')
         \<and> status session = ''completed'' \<and> totalIssues session = 0
         \<and> overallScore session = Some 10"
    by auto
  then show ?thesis
    using a b c e f run_quiet by auto
qed

section \<open>Rejection of a batch\<close>

lemma bind_None_right: "(\<And>x. f x = None) \<Longrightarrow> Option.bind m f = None"
  by (cases m) simp_all

lemma zVulnerability_None:
  assumes "zEnum severityValues (map_of kvs ''severity'') = None
         \<or> zStringMin 1 (map_of kvs ''type'') = None
         \<or> zStringMin 1 (map_of kvs ''category'') = None
         \<or> zStringMin 1 (map_of kvs ''filePath'') = None
         \<or> zStringMin 10 (map_of kvs ''description'') = None
         \<or> zStringMin 10 (map_of kvs ''recommendation'') = None
         \<or> zNumberMinMaxOptional 0 1 (map_of kvs ''confidenceScore'') = None"
  shows "zVulnerability (JObj kvs) = None"
  using assms
  by (elim disjE) (simp_all add: bind_None_right)

lemma invalidEntry_fails: "invalidEntry e \<Longrightarrow> zVulnerability e = None"
proof (cases e)
  case (JObj kvs)
  assume "invalidEntry e"
  then have inv:
    "(case map_of kvs ''severity'' of
        Some (JStr s) \<Rightarrow> s \<notin> set [''critical'', ''high'', ''medium'', ''low''] | _ \<Rightarrow> False)
     \<or> map_of kvs ''type'' = Some (JStr [])
     \<or> map_of kvs ''category'' = Some (JStr [])
     \<or> map_of kvs ''filePath'' = Some (JStr [])
     \<or> (case map_of kvs ''description'' of Some (JStr s) \<Rightarrow> length s < 10 | _ \<Rightarrow> False)
     \<or> (case map_of kvs ''recommendation'' of Some (JStr s) \<Rightarrow> length s < 10 | _ \<Rightarrow> False)
     \<or> (case map_of kvs ''confidenceScore'' of Some (JNum x) \<Rightarrow> x < 0 \<or> 1 < x | _ \<Rightarrow> False)"
    unfolding invalidEntry_def JObj by simp
  have sev: "zEnum severityValues x = None"
    if "case x of Some (JStr s) \<Rightarrow> s \<notin> set [''critical'', ''high'', ''medium'', ''low''] | _ \<Rightarrow> False"
    for x
    using that by (simp add: zEnum_def severityValues_def split: option.splits json.splits)
  have empty: "zStringMin 1 x = None" if "x = Some (JStr [])" for x
    using that by (simp add: zStringMin_def)
  have short: "zStringMin 10 x = None"
    if "case x of Some (JStr s) \<Rightarrow> length s < 10 | _ \<Rightarrow> False" for x
    using that by (auto simp: zStringMin_def split: option.splits json.splits)
  have conf: "zNumberMinMaxOptional 0 1 x = None"
    if "case x of Some (JNum r) \<Rightarrow> r < 0 \<or> 1 < r | _ \<Rightarrow> False" for x
    using that by (auto simp: zNumberMinMaxOptional_def split: option.splits json.splits)
  from inv
  have "zEnum severityValues (map_of kvs ''severity'') = None
         \<or> zStringMin 1 (map_of kvs ''type'') = None
         \<or> zStringMin 1 (map_of kvs ''category'') = None
         \<or> zStringMin 1 (map_of kvs ''filePath'') = None
         \<or> zStringMin 10 (map_of kvs ''description'') = None
         \<or> zStringMin 10 (map_of kvs ''recommendation'') = None
         \<or> zNumberMinMaxOptional 0 1 (map_of kvs ''confidenceScore'') = None"
    by (elim disjE) (simp_all only: sev empty short conf simp_thms)
  then show ?thesis
    unfolding JObj by (rule zVulnerability_None)
qed (simp_all add: invalidEntry_def)

lemma answer4_parsed:
  "jsonParse (jsonText answer4) = Some (JObj [(''vulnerabilities'', JArr [entryHigh, entryInfo])])"
  by code_simp

lemma entryHigh_valid: "zVulnerability entryHigh = Some (finding ''high'' (Some 0.5))"
  by code_simp

text \<open>
  C4. When the candidate payload parses as an object with a \<open>vulnerabilities\<close> list and
  one entry of the list fails the validation of the entry schema, \<open>analyzeCode\<close> returns
  the empty list, whatever the other entries are; and every entry with a defect the
  specification names (a severity outside the enum, an empty type, category or filePath, a
  description or recommendation shorter than 10 characters, a confidenceScore outside
  \<open>[0, 1]\<close>) fails that validation.
\<close>

theorem invalid_entry_rejects_batch:
  assumes "parse (jsonText text) = Some (JObj kvs)"
    and "map_of kvs ''vulnerabilities'' = Some (JArr es)"
    and "e \<in> set es"
    and "zVulnerability e = None"
  shows "analyzeCode parse (Text text) projectName = []
         \<and> (\<forall>e'. invalidEntry e' \<longrightarrow> zVulnerability e' = None)"
proof -
  have "those (map zVulnerability es) = None"
    using assms(3,4) by (rule those_map_None)
  then have "VulnerabilityDetectionSchema_parse (JObj kvs) = None"
    by (simp add: VulnerabilityDetectionSchema_parse_def assms(2))
  then show ?thesis
    using assms(1) invalidEntry_fails by (simp add: analyzeCode_def)
qed

theorem invalid_entry_rejects_batch_witness:
  "jsonParse (jsonText answer4) = Some (JObj [(''vulnerabilities'', JArr [entryHigh, entryInfo])])
   \<and> zVulnerability entryHigh = Some (finding ''high'' (Some 0.5))
   \<and> invalidEntry entryInfo
   \<and> zVulnerability entryInfo = None
   \<and> analyzeCode jsonParse (Text answer4) ''demo'' = []"
proof -
  have bad: "invalidEntry entryInfo"
    by (simp add: invalidEntry_def entryInfo_def)
  have "map_of [(''vulnerabilities'', JArr [entryHigh, entryInfo])] ''vulnerabilities''
          = Some (JArr [entryHigh, entryInfo])"
    by simp
  from invalid_entry_rejects_batch
         [of jsonParse answer4 "[(''vulnerabilities'', JArr [entryHigh, entryInfo])]"
             "[entryHigh, entryInfo]" entryInfo "''demo''"]
       answer4_parsed this bad invalidEntry_fails [of entryInfo]
  have "zVulnerability entryInfo = None \<and> analyzeCode jsonParse (Text answer4) ''demo'' = []"
    by simp
  with answer4_parsed entryHigh_valid bad show ?thesis
    by simp
qed

section \<open>Stored findings\<close>

lemma storeIssues_appends:
  "storeIssues rt sid k vs tbl = (stored, tbl') \<Longrightarrow> tbl' = tbl @ stored"
proof (induction vs arbitrary: k tbl stored tbl')
  case Nil
  then show ?case by simp
next
  case (Cons v vs)
  show ?case
  proof (cases "issue_id (issueValues rt sid k v) \<in> set (map issue_id tbl)")
    case True
    with Cons.prems have "storeIssues rt sid (Suc k) vs tbl = (stored, tbl')"
      by (simp add: Let_def)
    then show ?thesis by (rule Cons.IH)
  next
    case False
    with Cons.prems obtain rest where
      r: "storeIssues rt sid (Suc k) vs (tbl @ [issueValues rt sid k v]) = (rest, tbl')"
      and s: "stored = issueValues rt sid k v # rest"
      by (auto simp: Let_def split: prod.splits)
    from Cons.IH [OF r] s show ?thesis by simp
  qed
qed

lemma storeIssues_rows:
  "storeIssues rt sid k vs tbl = (stored, tbl') \<Longrightarrow> i \<in> set stored \<Longrightarrow>
   \<exists>j<length vs. i = issueValues rt sid (k + j) (vs ! j)"
proof (induction vs arbitrary: k tbl stored tbl')
  case Nil
  then show ?case by simp
next
  case (Cons v vs)
  show ?case
  proof (cases "issue_id (issueValues rt sid k v) \<in> set (map issue_id tbl)")
    case True
    with Cons.prems have "storeIssues rt sid (Suc k) vs tbl = (stored, tbl')"
      by (simp add: Let_def)
    from Cons.IH [OF this Cons.prems(2)] obtain j where "j < length vs"
      "i = issueValues rt sid (Suc k + j) (vs ! j)" by blast
    then have "Suc j < length (v # vs) \<and> i = issueValues rt sid (k + Suc j) ((v # vs) ! Suc j)"
      by simp
    then show ?thesis by blast
  next
    case False
    with Cons.prems obtain rest where
      r: "storeIssues rt sid (Suc k) vs (tbl @ [issueValues rt sid k v]) = (rest, tbl')"
      and s: "stored = issueValues rt sid k v # rest"
      by (auto simp: Let_def split: prod.splits)
    show ?thesis
    proof (cases "i = issueValues rt sid k v")
      case True
      then have "0 < length (v # vs) \<and> i = issueValues rt sid (k + 0) ((v # vs) ! 0)"
        by simp
      then show ?thesis by blast
    next
      case False
      with s Cons.prems(2) have "i \<in> set rest" by simp
      from Cons.IH [OF r this] obtain j where "j < length vs"
        "i = issueValues rt sid (Suc k + j) (vs ! j)" by blast
      then have "Suc j < length (v # vs) \<and> i = issueValues rt sid (k + Suc j) ((v # vs) ! Suc j)"
        by simp
      then show ?thesis by blast
    qed
  qed
qed

lemma issueValues_confidence:
  "confidenceScore (issueValues rt sid k v) = Some (storedConfidence (confidenceScore v))"
  by (cases "confidenceScore v") (simp_all add: issueValues_def storedConfidence_def)

text \<open>
  C10. Every issue that a successful \<open>startAnalysis\<close> returns is stored, and it is the row
  built from one of the validated findings (whose confidence, when present, lies in
  \<open>[0, 1]\<close>) with this confidence: the supplied value when it is present and not zero, and
  0.8 when the finding has no confidence and also when its confidence is 0.
\<close>

theorem stored_confidenceScore:
  assumes "startAnalysis rt d authHeader pid
             = (successResponse (AnalysisResults session issues) msg st, d')"
  shows "\<exists>proj vulns.
           get (filter (\<lambda>p. project_id p = pid) (projectsTable d)) = Some proj
         \<and> vulns = analyzeCode (JSON_parse rt) (generateContent rt (content proj) (name proj)) (name proj)
         \<and> (\<forall>i\<in>set issues. i \<in> set (securityIssuesTable d')
               \<and> (\<exists>k<length vulns.
                     i = issueValues rt (session_id session) k (vulns ! k)
                   \<and> (case confidenceScore (vulns ! k) of None \<Rightarrow> True | Some x \<Rightarrow> 0 \<le> x \<and> x \<le> 1)
                   \<and> confidenceScore i = Some (storedConfidence (confidenceScore (vulns ! k)))))
         \<and> storedConfidence None = 0.8 \<and> storedConfidence (Some 0) = 0.8
         \<and> (\<forall>x. x \<noteq> 0 \<longrightarrow> storedConfidence (Some x) = x)"
proof -
  from startAnalysis_success [OF assms] obtain proj vulns where
    p: "get (filter (\<lambda>p. project_id p = pid) (projectsTable d)) = Some proj"
    and v: "vulns = analyzeCode (JSON_parse rt) (generateContent rt (content proj) (name proj)) (name proj)"
    and s: "session = sessionValues rt pid vulns"
    and i: "issues = fst (storeIssues rt (session_id (sessionValues rt pid vulns)) 0 vulns (securityIssuesTable d))"
    and t: "securityIssuesTable d' =
              snd (storeIssues rt (session_id (sessionValues rt pid vulns)) 0 vulns (securityIssuesTable d))"
    by auto
  have st: "storeIssues rt (session_id session) 0 vulns (securityIssuesTable d)
              = (issues, securityIssuesTable d')"
    by (simp add: s i t)
  have "i \<in> set (securityIssuesTable d')
        \<and> (\<exists>k<length vulns.
              i = issueValues rt (session_id session) k (vulns ! k)
            \<and> (case confidenceScore (vulns ! k) of None \<Rightarrow> True | Some x \<Rightarrow> 0 \<le> x \<and> x \<le> 1)
            \<and> confidenceScore i = Some (storedConfidence (confidenceScore (vulns ! k))))"
    if mem: "i \<in> set issues" for i
  proof -
    from storeIssues_rows [OF st mem] obtain k where k: "k < length vulns"
      and e: "i = issueValues rt (session_id session) k (vulns ! k)" by auto
    have "vulns ! k \<in> set vulns" using k by simp
    with analyzeCode_cases
        [of "JSON_parse rt" "generateContent rt (content proj) (name proj)" "name proj"]
    obtain jv vs where "VulnerabilityDetectionSchema_parse jv = Some vs" "vulns ! k \<in> set vs"
      unfolding v [symmetric] by auto
    from schema_parse_valid [OF this] zVulnerability_Some
    have "case confidenceScore (vulns ! k) of None \<Rightarrow> True | Some x \<Rightarrow> 0 \<le> x \<and> x \<le> 1"
      by (auto split: option.splits)
    moreover have "confidenceScore i = Some (storedConfidence (confidenceScore (vulns ! k)))"
      unfolding e by (rule issueValues_confidence)
    moreover have "i \<in> set (securityIssuesTable d')"
      using storeIssues_appends [OF st] mem by simp
    ultimately show ?thesis
      using k e by blast
  qed
  moreover have "storedConfidence None = 0.8" "storedConfidence (Some 0) = 0.8"
    "\<forall>x. x \<noteq> 0 \<longrightarrow> storedConfidence (Some x) = x"
    by (simp_all add: storedConfidence_def)
  ultimately show ?thesis
    using p v by blast
qed

theorem stored_confidenceScore_witness:
  "startAnalysis rt0 db0 (Some ''Bearer secret1'') ''p1''
     = (successResponse (AnalysisResults session1 issues1) ''Analysis completed successfully'' CREATED, db1)
   \<and> analyzeCode (JSON_parse rt0) (generateContent rt0 ''eval(x)'' ''demo'') ''demo'' = findings3
   \<and> map confidenceScore findings3 = [Some 0, None, Some 0.5]
   \<and> map confidenceScore issues1 = [Some 0.8, Some 0.8, Some 0.5]
   \<and> set issues1 \<subseteq> set (securityIssuesTable db1)"
proof -
  from stored_confidenceScore [OF run_demo]
  have "\<forall>i\<in>set issues1. i \<in> set (securityIssuesTable db1)"
    by blast
  then have "set issues1 \<subseteq> set (securityIssuesTable db1)"
    by blast
  moreover have "analyzeCode (JSON_parse rt0) (generateContent rt0 ''eval(x)'' ''demo'') ''demo'' = findings3"
    using analyze_answer3 by (simp add: rt0_def)
  moreover have "map confidenceScore findings3 = [Some 0, None, Some 0.5]"
    by (simp add: findings3_def finding_def)
  moreover have "map confidenceScore issues1 = [Some 0.8, Some 0.8, Some 0.5]"
    by (simp add: issues1_def storedFinding_def)
  ultimately show ?thesis
    using run_demo by simp
qed

section \<open>Ownership\<close>

lemma filter_Cons_member: "filter P xs = y # ys \<Longrightarrow> y \<in> set xs \<and> P y"
proof -
  assume "filter P xs = y # ys"
  then have "y \<in> set (filter P xs)" by simp
  then show ?thesis by simp
qed

lemma get_filter_Some: "(get (filter P rows) \<noteq> None) = (\<exists>r\<in>set rows. P r)"
proof (cases "filter P rows")
  case Nil
  then show ?thesis by (simp add: get_def filter_empty_conv)
next
  case (Cons r rs)
  with filter_Cons_member [OF Cons] show ?thesis by (auto simp: get_def)
qed

lemma get_filter_member: "get (filter P rows) = Some r \<Longrightarrow> r \<in> set rows \<and> P r"
  by (cases "filter P rows") (auto simp: get_def dest: filter_Cons_member)

lemma leftJoin_row:
  "set (case filter (on x) ys of [] \<Rightarrow> [(x, None)] | m # ms \<Rightarrow> map (\<lambda>y. (x, Some y)) (m # ms))
     = {(x, Some y) | y. y \<in> set ys \<and> on x y} \<union> {(x, None) | z. z = x \<and> (\<forall>y\<in>set ys. \<not> on x y)}"
proof (cases "filter (on x) ys")
  case Nil
  then have "\<forall>y\<in>set ys. \<not> on x y"
    by (simp add: filter_empty_conv)
  with Nil show ?thesis by auto
next
  case (Cons m ms)
  have "set (m # ms) = {y \<in> set ys. on x y}"
    unfolding Cons [symmetric] by simp
  moreover from filter_Cons_member [OF Cons] have "\<not> (\<forall>y\<in>set ys. \<not> on x y)"
    by blast
  ultimately show ?thesis
    unfolding Cons list.case set_map by auto
qed

lemma leftJoin_set:
  "set (leftJoin xs ys on)
     = {(x, Some y) | x y. x \<in> set xs \<and> y \<in> set ys \<and> on x y}
       \<union> {(x, None) | x. x \<in> set xs \<and> (\<forall>y\<in>set ys. \<not> on x y)}"
  unfolding leftJoin_def set_concat set_map image_image leftJoin_row by auto

lemma leftJoin_Some:
  "((x, Some y) \<in> set (leftJoin xs ys on)) = (x \<in> set xs \<and> y \<in> set ys \<and> on x y)"
  unfolding leftJoin_set by simp

lemma verifyIssueOwnership_iff: "verifyIssueOwnership d issueId k = ownsIssue d k issueId"
proof
  assume "verifyIssueOwnership d issueId k"
  then obtain i s p where row: "((i, s), p) \<in> set (issuesWithProject d)"
    and own: "issue_id i = issueId" "projectOwnedBy k p"
    unfolding verifyIssueOwnership_def get_filter_Some by auto
  from own(2) obtain p' where p: "p = Some p'" "apiKeyId p' = k"
    by (auto simp: projectOwnedBy_def split: option.splits)
  from row p(1) have 1: "(i, s) \<in> set (leftJoin (securityIssuesTable d) (analysisSessionsTable d)
          (\<lambda>i s. analysisSessionId i = session_id s))"
    and 2: "p' \<in> set (projectsTable d)"
    and 3: "case s of None \<Rightarrow> False | Some s' \<Rightarrow> projectId s' = project_id p'"
    by (simp_all add: issuesWithProject_def leftJoin_Some)
  from 3 obtain s' where s: "s = Some s'" "projectId s' = project_id p'"
    by (auto split: option.splits)
  from 1 s(1) have "i \<in> set (securityIssuesTable d)" "s' \<in> set (analysisSessionsTable d)"
    "analysisSessionId i = session_id s'"
    by (simp_all add: leftJoin_Some)
  with 2 s(2) p(2) own(1) show "ownsIssue d k issueId"
    unfolding ownsIssue_def by blast
next
  assume "ownsIssue d k issueId"
  then obtain i s p where m: "i \<in> set (securityIssuesTable d)" "s \<in> set (analysisSessionsTable d)"
    "p \<in> set (projectsTable d)"
    and c: "issue_id i = issueId" "analysisSessionId i = session_id s" "projectId s = project_id p"
    "apiKeyId p = k"
    unfolding ownsIssue_def by blast
  from m(1,2) c(2) have "(i, Some s) \<in> set (leftJoin (securityIssuesTable d) (analysisSessionsTable d)
          (\<lambda>i s. analysisSessionId i = session_id s))"
    by (simp add: leftJoin_Some)
  with m(3) c(3) have "((i, Some s), Some p) \<in> set (issuesWithProject d)"
    by (simp add: issuesWithProject_def leftJoin_Some)
  moreover have "projectOwnedBy k (Some p)"
    by (simp add: projectOwnedBy_def c(4))
  ultimately show "verifyIssueOwnership d issueId k"
    unfolding verifyIssueOwnership_def get_filter_Some using c(1) by force
qed

lemma sessionWithProject_not_owned:
  assumes "\<not> ownsSession d k sessionId"
  shows "sessionWithProject d sessionId = None
         \<or> (\<exists>s p. sessionWithProject d sessionId = Some (s, p) \<and> map_option apiKeyId p \<noteq> Some k)"
proof (cases "sessionWithProject d sessionId")
  case None
  then show ?thesis by simp
next
  case (Some row)
  obtain s p where row: "row = (s, p)" by (cases row)
  from Some row have mem: "(s, p) \<in> set (leftJoin (analysisSessionsTable d) (projectsTable d)
               (\<lambda>s p. projectId s = project_id p))" and sid: "session_id s = sessionId"
    unfolding sessionWithProject_def by (auto dest: get_filter_member)
  have "map_option apiKeyId p \<noteq> Some k"
  proof
    assume "map_option apiKeyId p = Some k"
    then obtain p' where p: "p = Some p'" "apiKeyId p' = k" by auto
    from mem p(1) have "s \<in> set (analysisSessionsTable d)" "p' \<in> set (projectsTable d)"
      "projectId s = project_id p'"
      by (simp_all add: leftJoin_Some)
    with sid p(2) have "ownsSession d k sessionId"
      unfolding ownsSession_def by blast
    with assms show False by simp
  qed
  with Some row show ?thesis by simp
qed

lemma sessionAbsent_not_owned: "sessionAbsent d sessionId \<Longrightarrow> \<not> ownsSession d k sessionId"
  by (auto simp: sessionAbsent_def ownsSession_def)

lemma issueAbsent_not_owned: "issueAbsent d issueId \<Longrightarrow> \<not> ownsIssue d k issueId"
  by (auto simp: issueAbsent_def ownsIssue_def)

lemma principal_cases:
  "principal rt d authHeader = Some k \<Longrightarrow>
   \<exists>apiKey. getApiKeyFromHeader authHeader = Some apiKey \<and> apiKey \<noteq> []
           \<and> validateApiKey rt d apiKey = Some k"
  by (auto simp: principal_def split: option.splits if_splits)

lemma getAnalysisResults_not_owned:
  assumes "principal rt d authHeader = Some k" and "\<not> ownsSession d k sessionId"
  shows "getAnalysisResults rt d authHeader sessionId
           = errorResponse ''Analysis session not found'' NOT_FOUND"
  using principal_cases [OF assms(1)] sessionWithProject_not_owned [OF assms(2)]
  by (auto simp: getAnalysisResults_def)

lemma exportAnalysis_not_owned:
  assumes "principal rt d authHeader = Some k" and "\<not> ownsSession d k sessionId"
  shows "exportAnalysis rt d authHeader sessionId format
           = ([], errorResponse ''Analysis session not found'' NOT_FOUND)"
  using principal_cases [OF assms(1)] sessionWithProject_not_owned [OF assms(2)]
  by (auto simp: exportAnalysis_def)

lemma resolveIssue_not_owned:
  assumes "principal rt d authHeader = Some k" and "\<not> ownsIssue d k issueId"
  shows "resolveIssue rt d authHeader issueId = (errorResponse ''Issue not found'' NOT_FOUND, d)"
  using principal_cases [OF assms(1)] assms(2)
  by (auto simp: resolveIssue_def verifyIssueOwnership_iff)

lemma markFalsePositive_not_owned:
  assumes "principal rt d authHeader = Some k" and "\<not> ownsIssue d k issueId"
  shows "markFalsePositive rt d authHeader issueId = (errorResponse ''Issue not found'' NOT_FOUND, d)"
  using principal_cases [OF assms(1)] assms(2)
  by (auto simp: markFalsePositive_def verifyIssueOwnership_iff)

lemma status_getAnalysisResults:
  "statusCode (getAnalysisResults rt d authHeader sessionId) \<in> {OK, UNAUTHORIZED, NOT_FOUND}"
  by (simp add: getAnalysisResults_def split: option.splits prod.splits)

lemma status_exportAnalysis:
  "statusCode (snd (exportAnalysis rt d authHeader sessionId format)) \<in> {OK, UNAUTHORIZED, NOT_FOUND}"
  by (simp add: exportAnalysis_def Let_def split: option.splits prod.splits)

lemma status_resolveIssue:
  "statusCode (fst (resolveIssue rt d authHeader issueId)) \<in> {OK, UNAUTHORIZED, NOT_FOUND}"
  by (simp add: resolveIssue_def updateIssues_def split: option.splits prod.splits)

lemma status_markFalsePositive:
  "statusCode (fst (markFalsePositive rt d authHeader issueId)) \<in> {OK, UNAUTHORIZED, NOT_FOUND}"
  by (simp add: markFalsePositive_def updateIssues_def split: option.splits prod.splits)


text \<open>
  C7. For a caller authenticated as \<open>k\<close>, each of the four operations answers with one and
  the same \<open>NotFound\<close> response, and leaves the store as it is, when its target does not
  exist and when the target exists without an ownership chain to \<open>k\<close>: reading a session,
  exporting a session, resolving a finding and marking a finding as a false positive.
  So the responses for an absent target in one store and for a foreign target in another
  are equal. No response of these four handlers has the status \<open>Forbidden\<close>.
\<close>

theorem not_found_hides_ownership:
  "(principal rt d authHeader = Some k \<and> sessionAbsent d sessionId \<longrightarrow>
      getAnalysisResults rt d authHeader sessionId
        = errorResponse ''Analysis session not found'' NOT_FOUND)
   \<and> (principal rt d authHeader = Some k \<and> sessionForeign d k sessionId \<longrightarrow>
      getAnalysisResults rt d authHeader sessionId
        = errorResponse ''Analysis session not found'' NOT_FOUND)
   \<and> (principal rt d authHeader = Some k \<and> sessionAbsent d sessionId \<longrightarrow>
      exportAnalysis rt d authHeader sessionId format
        = ([], errorResponse ''Analysis session not found'' NOT_FOUND))
   \<and> (principal rt d authHeader = Some k \<and> sessionForeign d k sessionId \<longrightarrow>
      exportAnalysis rt d authHeader sessionId format
        = ([], errorResponse ''Analysis session not found'' NOT_FOUND))
   \<and> (principal rt d authHeader = Some k \<and> issueAbsent d issueId \<longrightarrow>
      resolveIssue rt d authHeader issueId = (errorResponse ''Issue not found'' NOT_FOUND, d))
   \<and> (principal rt d authHeader = Some k \<and> issueForeign d k issueId \<longrightarrow>
      resolveIssue rt d authHeader issueId = (errorResponse ''Issue not found'' NOT_FOUND, d))
   \<and> (principal rt d authHeader = Some k \<and> issueAbsent d issueId \<longrightarrow>
      markFalsePositive rt d authHeader issueId = (errorResponse ''Issue not found'' NOT_FOUND, d))
   \<and> (principal rt d authHeader = Some k \<and> issueForeign d k issueId \<longrightarrow>
      markFalsePositive rt d authHeader issueId = (errorResponse ''Issue not found'' NOT_FOUND, d))
   \<and> (principal rt d1 authHeader = Some k \<and> principal rt d2 authHeader = Some k
        \<and> sessionAbsent d1 sessionId \<and> sessionForeign d2 k sessionId \<longrightarrow>
      getAnalysisResults rt d1 authHeader sessionId = getAnalysisResults rt d2 authHeader sessionId
      \<and> exportAnalysis rt d1 authHeader sessionId format
          = exportAnalysis rt d2 authHeader sessionId format)
   \<and> (principal rt d1 authHeader = Some k \<and> principal rt d2 authHeader = Some k
        \<and> issueAbsent d1 issueId \<and> issueForeign d2 k issueId \<longrightarrow>
      fst (resolveIssue rt d1 authHeader issueId) = fst (resolveIssue rt d2 authHeader issueId)
      \<and> fst (markFalsePositive rt d1 authHeader issueId)
          = fst (markFalsePositive rt d2 authHeader issueId))
   \<and> statusCode (getAnalysisResults rt' d' authHeader' sessionId') \<noteq> FORBIDDEN
   \<and> statusCode (snd (exportAnalysis rt' d' authHeader' sessionId' format')) \<noteq> FORBIDDEN
   \<and> statusCode (fst (resolveIssue rt' d' authHeader' issueId')) \<noteq> FORBIDDEN
   \<and> statusCode (fst (markFalsePositive rt' d' authHeader' issueId')) \<noteq> FORBIDDEN"
proof -
  let ?nfs = "errorResponse ''Analysis session not found'' NOT_FOUND"
  let ?nfi = "errorResponse ''Issue not found'' NOT_FOUND"
  have g: "getAnalysisResults rt x authHeader sessionId = ?nfs"
    and e: "exportAnalysis rt x authHeader sessionId format = ([], ?nfs)"
    if "principal rt x authHeader = Some k" "sessionAbsent x sessionId \<or> sessionForeign x k sessionId"
    for x
  proof -
    from that(2) have "\<not> ownsSession x k sessionId"
      using sessionAbsent_not_owned by (auto simp: sessionForeign_def)
    with that(1) show "getAnalysisResults rt x authHeader sessionId = ?nfs"
      "exportAnalysis rt x authHeader sessionId format = ([], ?nfs)"
      by (rule getAnalysisResults_not_owned, rule exportAnalysis_not_owned)
  qed
  have r: "resolveIssue rt x authHeader issueId = (?nfi, x)"
    and m: "markFalsePositive rt x authHeader issueId = (?nfi, x)"
    if "principal rt x authHeader = Some k" "issueAbsent x issueId \<or> issueForeign x k issueId"
    for x
  proof -
    from that(2) have "\<not> ownsIssue x k issueId"
      using issueAbsent_not_owned by (auto simp: issueForeign_def)
    with that(1) show "resolveIssue rt x authHeader issueId = (?nfi, x)"
      "markFalsePositive rt x authHeader issueId = (?nfi, x)"
      by (rule resolveIssue_not_owned, rule markFalsePositive_not_owned)
  qed
  have forbidden: "x \<noteq> FORBIDDEN" if "x \<in> {OK, UNAUTHORIZED, NOT_FOUND}" for x
    using that by (auto simp: OK_def UNAUTHORIZED_def NOT_FOUND_def FORBIDDEN_def)
  have 1: "principal rt d authHeader = Some k \<and> sessionAbsent d sessionId \<longrightarrow>
      getAnalysisResults rt d authHeader sessionId = ?nfs"
    using g by blast
  have 2: "principal rt d authHeader = Some k \<and> sessionForeign d k sessionId \<longrightarrow>
      getAnalysisResults rt d authHeader sessionId = ?nfs"
    using g by blast
  have 3: "principal rt d authHeader = Some k \<and> sessionAbsent d sessionId \<longrightarrow>
      exportAnalysis rt d authHeader sessionId format = ([], ?nfs)"
    using e by blast
  have 4: "principal rt d authHeader = Some k \<and> sessionForeign d k sessionId \<longrightarrow>
      exportAnalysis rt d authHeader sessionId format = ([], ?nfs)"
    using e by blast
  have 5: "principal rt d authHeader = Some k \<and> issueAbsent d issueId \<longrightarrow>
      resolveIssue rt d authHeader issueId = (?nfi, d)"
    using r by blast
  have 6: "principal rt d authHeader = Some k \<and> issueForeign d k issueId \<longrightarrow>
      resolveIssue rt d authHeader issueId = (?nfi, d)"
    using r by blast
  have 7: "principal rt d authHeader = Some k \<and> issueAbsent d issueId \<longrightarrow>
      markFalsePositive rt d authHeader issueId = (?nfi, d)"
    using m by blast
  have 8: "principal rt d authHeader = Some k \<and> issueForeign d k issueId \<longrightarrow>
      markFalsePositive rt d authHeader issueId = (?nfi, d)"
    using m by blast
  have 9: "principal rt d1 authHeader = Some k \<and> principal rt d2 authHeader = Some k
        \<and> sessionAbsent d1 sessionId \<and> sessionForeign d2 k sessionId \<longrightarrow>
      getAnalysisResults rt d1 authHeader sessionId = getAnalysisResults rt d2 authHeader sessionId
      \<and> exportAnalysis rt d1 authHeader sessionId format
          = exportAnalysis rt d2 authHeader sessionId format"
  proof (intro impI, elim conjE)
    assume a: "principal rt d1 authHeader = Some k" "principal rt d2 authHeader = Some k"
      "sessionAbsent d1 sessionId" "sessionForeign d2 k sessionId"
    have "getAnalysisResults rt d1 authHeader sessionId = ?nfs"
      "getAnalysisResults rt d2 authHeader sessionId = ?nfs"
      "exportAnalysis rt d1 authHeader sessionId format = ([], ?nfs)"
      "exportAnalysis rt d2 authHeader sessionId format = ([], ?nfs)"
      using a g [of d1] g [of d2] e [of d1] e [of d2] by blast+
    then show "getAnalysisResults rt d1 authHeader sessionId = getAnalysisResults rt d2 authHeader sessionId
      \<and> exportAnalysis rt d1 authHeader sessionId format
          = exportAnalysis rt d2 authHeader sessionId format"
      by simp
  qed
  have 10: "principal rt d1 authHeader = Some k \<and> principal rt d2 authHeader = Some k
        \<and> issueAbsent d1 issueId \<and> issueForeign d2 k issueId \<longrightarrow>
      fst (resolveIssue rt d1 authHeader issueId) = fst (resolveIssue rt d2 authHeader issueId)
      \<and> fst (markFalsePositive rt d1 authHeader issueId)
          = fst (markFalsePositive rt d2 authHeader issueId)"
  proof (intro impI, elim conjE)
    assume a: "principal rt d1 authHeader = Some k" "principal rt d2 authHeader = Some k"
      "issueAbsent d1 issueId" "issueForeign d2 k issueId"
    have "resolveIssue rt d1 authHeader issueId = (?nfi, d1)"
      "resolveIssue rt d2 authHeader issueId = (?nfi, d2)"
      "markFalsePositive rt d1 authHeader issueId = (?nfi, d1)"
      "markFalsePositive rt d2 authHeader issueId = (?nfi, d2)"
      using a r [of d1] r [of d2] m [of d1] m [of d2] by blast+
    then show "fst (resolveIssue rt d1 authHeader issueId) = fst (resolveIssue rt d2 authHeader issueId)
      \<and> fst (markFalsePositive rt d1 authHeader issueId)
          = fst (markFalsePositive rt d2 authHeader issueId)"
      by simp
  qed
  have 11: "statusCode (getAnalysisResults rt' d' authHeader' sessionId') \<noteq> FORBIDDEN"
    by (intro forbidden status_getAnalysisResults)
  have 12: "statusCode (snd (exportAnalysis rt' d' authHeader' sessionId' format')) \<noteq> FORBIDDEN"
    by (intro forbidden status_exportAnalysis)
  have 13: "statusCode (fst (resolveIssue rt' d' authHeader' issueId')) \<noteq> FORBIDDEN"
    by (intro forbidden status_resolveIssue)
  have 14: "statusCode (fst (markFalsePositive rt' d' authHeader' issueId')) \<noteq> FORBIDDEN"
    by (intro forbidden status_markFalsePositive)
  show ?thesis
    by (intro conjI 1 2 3 4 5 6 7 8 9 10 11 12 13 14)
qed

lemma db0_facts:
  "principal rt0 dbEmpty (Some ''Bearer secret1'') = Some ''k1''"
  "principal rt0 db0 (Some ''Bearer secret1'') = Some ''k1''"
  "principal rt0 db0 (Some ''Bearer secret2'') = Some ''k2''"
  "sessionAbsent dbEmpty ''s9''"
  "sessionForeign db0 ''k1'' ''s9''"
  "issueAbsent dbEmpty ''i9''"
  "issueForeign db0 ''k1'' ''i9''"
  "ownsIssue db0 ''k2'' ''i9''"
  by (simp_all add: principal_def getApiKeyFromHeader_def startsWith_def validateApiKey_def get_def
      rt0_def db0_def dbEmpty_def session9_def issue9_def sessionAbsent_def sessionForeign_def
      issueAbsent_def issueForeign_def ownsSession_def ownsIssue_def)

lemma dbNoIssues_facts:
  "principal rt0 dbNoIssues (Some ''Bearer secret1'') = Some ''k1''"
  "sessionForeign dbNoIssues ''k1'' ''s9''"
  "issueAbsent dbNoIssues ''i9''"
  by (simp_all add: principal_def getApiKeyFromHeader_def startsWith_def validateApiKey_def get_def
      rt0_def db0_def dbNoIssues_def session9_def sessionForeign_def issueAbsent_def ownsSession_def)

theorem not_found_hides_ownership_witness:
  "principal rt0 dbEmpty (Some ''Bearer secret1'') = Some ''k1''
   \<and> principal rt0 db0 (Some ''Bearer secret1'') = Some ''k1''
   \<and> principal rt0 dbNoIssues (Some ''Bearer secret1'') = Some ''k1''
   \<and> sessionAbsent dbEmpty ''s9'' \<and> sessionForeign db0 ''k1'' ''s9''
   \<and> sessionForeign dbNoIssues ''k1'' ''s9''
   \<and> issueAbsent dbEmpty ''i9'' \<and> issueForeign db0 ''k1'' ''i9'' \<and> issueAbsent dbNoIssues ''i9''
   \<and> getAnalysisResults rt0 dbEmpty (Some ''Bearer secret1'') ''s9''
       = errorResponse ''Analysis session not found'' NOT_FOUND
   \<and> getAnalysisResults rt0 db0 (Some ''Bearer secret1'') ''s9''
       = errorResponse ''Analysis session not found'' NOT_FOUND
   \<and> getAnalysisResults rt0 dbNoIssues (Some ''Bearer secret1'') ''s9''
       = errorResponse ''Analysis session not found'' NOT_FOUND
   \<and> exportAnalysis rt0 dbEmpty (Some ''Bearer secret1'') ''s9'' Json
       = ([], errorResponse ''Analysis session not found'' NOT_FOUND)
   \<and> exportAnalysis rt0 db0 (Some ''Bearer secret1'') ''s9'' Json
       = ([], errorResponse ''Analysis session not found'' NOT_FOUND)
   \<and> exportAnalysis rt0 dbNoIssues (Some ''Bearer secret1'') ''s9'' Pdf
       = ([], errorResponse ''Analysis session not found'' NOT_FOUND)
   \<and> resolveIssue rt0 dbEmpty (Some ''Bearer secret1'') ''i9''
       = (errorResponse ''Issue not found'' NOT_FOUND, dbEmpty)
   \<and> resolveIssue rt0 db0 (Some ''Bearer secret1'') ''i9''
       = (errorResponse ''Issue not found'' NOT_FOUND, db0)
   \<and> markFalsePositive rt0 dbEmpty (Some ''Bearer secret1'') ''i9''
       = (errorResponse ''Issue not found'' NOT_FOUND, dbEmpty)
   \<and> markFalsePositive rt0 db0 (Some ''Bearer secret1'') ''i9''
       = (errorResponse ''Issue not found'' NOT_FOUND, db0)
   \<and> getAnalysisResults rt0 dbEmpty (Some ''Bearer secret1'') ''s9''
       = getAnalysisResults rt0 dbNoIssues (Some ''Bearer secret1'') ''s9''
   \<and> fst (resolveIssue rt0 dbEmpty (Some ''Bearer secret1'') ''i9'')
       = fst (resolveIssue rt0 db0 (Some ''Bearer secret1'') ''i9'')"
proof -
  note t1 = not_found_hides_ownership
      [of rt0 dbEmpty "Some ''Bearer secret1''" "''k1''" "''s9''" Json "''i9''" dbEmpty db0]
  note t2 = not_found_hides_ownership
      [of rt0 db0 "Some ''Bearer secret1''" "''k1''" "''s9''" Json "''i9''" dbEmpty dbNoIssues]
  note t3 = not_found_hides_ownership
      [of rt0 dbNoIssues "Some ''Bearer secret1''" "''k1''" "''s9''" Pdf "''i9''"]
  note f = db0_facts(1,2,4-7) dbNoIssues_facts
  have a: "getAnalysisResults rt0 dbEmpty (Some ''Bearer secret1'') ''s9''
       = errorResponse ''Analysis session not found'' NOT_FOUND"
    "exportAnalysis rt0 dbEmpty (Some ''Bearer secret1'') ''s9'' Json
       = ([], errorResponse ''Analysis session not found'' NOT_FOUND)"
    "resolveIssue rt0 dbEmpty (Some ''Bearer secret1'') ''i9''
       = (errorResponse ''Issue not found'' NOT_FOUND, dbEmpty)"
    "markFalsePositive rt0 dbEmpty (Some ''Bearer secret1'') ''i9''
       = (errorResponse ''Issue not found'' NOT_FOUND, dbEmpty)"
    "fst (resolveIssue rt0 dbEmpty (Some ''Bearer secret1'') ''i9'')
       = fst (resolveIssue rt0 db0 (Some ''Bearer secret1'') ''i9'')"
    using t1 f by blast+
  have b: "getAnalysisResults rt0 db0 (Some ''Bearer secret1'') ''s9''
       = errorResponse ''Analysis session not found'' NOT_FOUND"
    "exportAnalysis rt0 db0 (Some ''Bearer secret1'') ''s9'' Json
       = ([], errorResponse ''Analysis session not found'' NOT_FOUND)"
    "resolveIssue rt0 db0 (Some ''Bearer secret1'') ''i9''
       = (errorResponse ''Issue not found'' NOT_FOUND, db0)"
    "markFalsePositive rt0 db0 (Some ''Bearer secret1'') ''i9''
       = (errorResponse ''Issue not found'' NOT_FOUND, db0)"
    "getAnalysisResults rt0 dbEmpty (Some ''Bearer secret1'') ''s9''
       = getAnalysisResults rt0 dbNoIssues (Some ''Bearer secret1'') ''s9''"
    using t2 f by blast+
  have c: "getAnalysisResults rt0 dbNoIssues (Some ''Bearer secret1'') ''s9''
       = errorResponse ''Analysis session not found'' NOT_FOUND"
    "exportAnalysis rt0 dbNoIssues (Some ''Bearer secret1'') ''s9'' Pdf
       = ([], errorResponse ''Analysis session not found'' NOT_FOUND)"
    using t3 f by blast+
  show ?thesis
    by (intro conjI f a b c)
qed

section \<open>Updates of findings\<close>

lemma principal_issues_update:
  "principal rt (d\<lparr> securityIssuesTable := tbl \<rparr>) authHeader = principal rt d authHeader"
proof -
  have "validateApiKey rt (d\<lparr> securityIssuesTable := tbl \<rparr>) a = validateApiKey rt d a" for a
    by (simp add: validateApiKey_def)
  then show ?thesis
    by (simp add: principal_def split: option.splits)
qed

lemma ownsIssue_map:
  assumes "\<And>i. issue_id (f i) = issue_id i \<and> analysisSessionId (f i) = analysisSessionId i"
  shows "ownsIssue (d\<lparr> securityIssuesTable := map f (securityIssuesTable d) \<rparr>) k x = ownsIssue d k x"
  unfolding ownsIssue_def using assms by (simp add: Bex_def)

lemma resolveIssue_owned:
  assumes "principal rt d authHeader = Some k" and "ownsIssue d k issueId"
  shows "resolveIssue rt d authHeader issueId =
           (successResponse
              (UpdatedIssue (get (map (\<lambda>i. i\<lparr> resolved := True \<rparr>)
                                    (filter (\<lambda>i. issue_id i = issueId) (securityIssuesTable d)))))
              ''Issue marked as resolved'' OK,
            d\<lparr> securityIssuesTable :=
                 map (\<lambda>i. if issue_id i = issueId then i\<lparr> resolved := True \<rparr> else i)
                   (securityIssuesTable d) \<rparr>)"
  using principal_cases [OF assms(1)] assms(2)
  by (auto simp: resolveIssue_def verifyIssueOwnership_iff updateIssues_def)

text \<open>
  C8. For a finding with an ownership chain to the caller, \<open>resolve\<close> succeeds and returns
  the finding with \<open>resolved = true\<close>; a second \<open>resolve\<close> on the store it leaves
  succeeds with the same response and leaves that store unchanged, every row of that id
  being resolved. For this caller, \<open>resolve\<close> answers \<open>NotFound\<close> exactly for the ids
  without an ownership chain to it (absent or not owned).
\<close>

theorem resolve_twice:
  assumes "principal rt d authHeader = Some k" and "ownsIssue d k issueId"
  shows "\<exists>i1 d1.
           resolveIssue rt d authHeader issueId
             = (successResponse (UpdatedIssue (Some i1)) ''Issue marked as resolved'' OK, d1)
         \<and> issue_id i1 = issueId \<and> resolved i1
         \<and> resolveIssue rt d1 authHeader issueId
             = (successResponse (UpdatedIssue (Some i1)) ''Issue marked as resolved'' OK, d1)
         \<and> list_all resolved (filter (\<lambda>i. issue_id i = issueId) (securityIssuesTable d1))
         \<and> (\<forall>x. (fst (resolveIssue rt d authHeader x) = errorResponse ''Issue not found'' NOT_FOUND)
                  = (\<not> ownsIssue d k x))"
proof -
  let ?c = "\<lambda>i. issue_id i = issueId"
  let ?r = "\<lambda>i :: securityIssue. i\<lparr> resolved := True \<rparr>"
  let ?g = "\<lambda>i. if ?c i then ?r i else i"
  let ?tbl = "securityIssuesTable d"
  let ?d1 = "d\<lparr> securityIssuesTable := map ?g ?tbl \<rparr>"
  from assms(2) obtain i0 where "i0 \<in> set ?tbl" "?c i0"
    unfolding ownsIssue_def by blast
  then have "filter ?c ?tbl \<noteq> []"
    by (auto simp: filter_empty_conv)
  then obtain i rest where f: "filter ?c ?tbl = i # rest"
    by (cases "filter ?c ?tbl") auto
  have ci: "?c i" using filter_Cons_member [OF f] by simp
  have first: "resolveIssue rt d authHeader issueId
       = (successResponse (UpdatedIssue (Some (?r i))) ''Issue marked as resolved'' OK, ?d1)"
    using resolveIssue_owned [OF assms] by (simp add: f get_def)
  have p1: "principal rt ?d1 authHeader = Some k"
    using assms(1) by (simp add: principal_issues_update)
  have o1: "ownsIssue ?d1 k issueId"
    using assms(2) ownsIssue_map [of ?g d k issueId] by simp
  have gg: "map ?g (map ?g ?tbl) = map ?g ?tbl"
    by simp
  have fg: "filter ?c (map ?g xs) = map ?r (filter ?c xs)" for xs
    by (induction xs) auto
  have second: "resolveIssue rt ?d1 authHeader issueId
       = (successResponse (UpdatedIssue (Some (?r i))) ''Issue marked as resolved'' OK, ?d1)"
    using resolveIssue_owned [OF p1 o1] by (simp add: fg f get_def gg)
  have all: "list_all resolved (filter ?c (securityIssuesTable ?d1))"
    by (simp add: fg list_all_iff)
  have iff: "(fst (resolveIssue rt d authHeader x) = errorResponse ''Issue not found'' NOT_FOUND)
                  = (\<not> ownsIssue d k x)" for x
  proof (cases "ownsIssue d k x")
    case True
    from resolveIssue_owned [OF assms(1) True] True show ?thesis by simp
  next
    case False
    from resolveIssue_not_owned [OF assms(1) False] False show ?thesis by simp
  qed
  from first second all iff ci show ?thesis
    by (intro exI [of _ "?r i"] exI [of _ ?d1]) simp
qed

lemma resolve_runs:
  "resolveIssue rt0 db0 (Some ''Bearer secret2'') ''i9''
     = (successResponse (UpdatedIssue (Some (issue9\<lparr> resolved := True \<rparr>)))
          ''Issue marked as resolved'' OK, dbResolved)"
  "resolveIssue rt0 dbResolved (Some ''Bearer secret2'') ''i9''
     = (successResponse (UpdatedIssue (Some (issue9\<lparr> resolved := True \<rparr>)))
          ''Issue marked as resolved'' OK, dbResolved)"
  by code_simp+

theorem resolve_twice_witness:
  "principal rt0 db0 (Some ''Bearer secret2'') = Some ''k2'' \<and> ownsIssue db0 ''k2'' ''i9''
   \<and> resolveIssue rt0 db0 (Some ''Bearer secret2'') ''i9''
       = (successResponse (UpdatedIssue (Some (issue9\<lparr> resolved := True \<rparr>)))
            ''Issue marked as resolved'' OK, dbResolved)
   \<and> resolveIssue rt0 dbResolved (Some ''Bearer secret2'') ''i9''
       = (successResponse (UpdatedIssue (Some (issue9\<lparr> resolved := True \<rparr>)))
            ''Issue marked as resolved'' OK, dbResolved)
   \<and> fst (resolveIssue rt0 db0 (Some ''Bearer secret2'') ''nope'')
       = errorResponse ''Issue not found'' NOT_FOUND"
proof -
  have "\<not> ownsIssue db0 ''k2'' ''nope''"
    by (simp add: ownsIssue_def db0_def issue9_def)
  with resolve_twice [OF db0_facts(3,8)]
  have "fst (resolveIssue rt0 db0 (Some ''Bearer secret2'') ''nope'')
       = errorResponse ''Issue not found'' NOT_FOUND"
    by blast
  with db0_facts(3,8) resolve_runs show ?thesis
    by simp
qed


lemma startAnalysis_frame:
  assumes "startAnalysis rt d authHeader pid = (r, d')"
  shows "\<exists>new. securityIssuesTable d' = securityIssuesTable d @ new"
proof (cases r)
  case (errorResponse m st)
  with assms have "d' = d"
    by (auto simp: startAnalysis_def Let_def split: option.splits if_splits prod.splits)
  then show ?thesis by simp
next
  case (successResponse pl m st)
  from startAnalysis_success [OF assms [unfolded successResponse]]
  obtain sid vulns where "securityIssuesTable d' = snd (storeIssues rt sid 0 vulns (securityIssuesTable d))"
    by blast
  then show ?thesis
    using storeIssues_appends [of rt sid 0 vulns "securityIssuesTable d"]
    by (metis prod.collapse)
qed


lemma update_runs:
  "markFalsePositive rt0 db0 (Some ''Bearer secret2'') ''i9''
     = (successResponse (UpdatedIssue (Some (issue9\<lparr> falsePositive := True \<rparr>)))
          ''Issue marked as false positive'' OK, dbMarked)"
  "bulkUpdateIssues rt0 dbResolved (Some ''Bearer secret2'') reopenAndMark
     = (successResponse (BulkUpdated 1 [issue9\<lparr> falsePositive := True \<rparr>])
          ''Issues updated successfully'' OK, dbMarked)"
  by code_simp+

lemma principal_None_cases:
  "principal rt d authHeader = None \<Longrightarrow>
   getApiKeyFromHeader authHeader = None \<or> getApiKeyFromHeader authHeader = Some []
   \<or> (\<exists>a. getApiKeyFromHeader authHeader = Some a \<and> a \<noteq> [] \<and> validateApiKey rt d a = None)"
  by (auto simp: principal_def split: option.splits if_splits)

lemma status_distinct:
  "UNAUTHORIZED \<noteq> OK" "NOT_FOUND \<noteq> OK" "BAD_REQUEST \<noteq> OK"
  by (simp_all add: UNAUTHORIZED_def NOT_FOUND_def BAD_REQUEST_def OK_def)

lemma markFalsePositive_owned:
  assumes "principal rt d authHeader = Some k" and "ownsIssue d k issueId"
  shows "markFalsePositive rt d authHeader issueId =
           (successResponse
              (UpdatedIssue (get (map (\<lambda>i. i\<lparr> falsePositive := True \<rparr>)
                                    (filter (\<lambda>i. issue_id i = issueId) (securityIssuesTable d)))))
              ''Issue marked as false positive'' OK,
            d\<lparr> securityIssuesTable :=
                 map (\<lambda>i. if issue_id i = issueId then i\<lparr> falsePositive := True \<rparr> else i)
                   (securityIssuesTable d) \<rparr>)"
  using principal_cases [OF assms(1)] assms(2)
  by (auto simp: markFalsePositive_def verifyIssueOwnership_iff updateIssues_def)

lemma resolveIssue_unauthenticated:
  assumes "principal rt d authHeader = None"
  shows "\<exists>m. resolveIssue rt d authHeader issueId = (errorResponse m UNAUTHORIZED, d)"
  using principal_None_cases [OF assms] by (auto simp: resolveIssue_def)

lemma markFalsePositive_unauthenticated:
  assumes "principal rt d authHeader = None"
  shows "\<exists>m. markFalsePositive rt d authHeader issueId = (errorResponse m UNAUTHORIZED, d)"
  using principal_None_cases [OF assms] by (auto simp: markFalsePositive_def)

lemma list_all2_map_fun: "list_all2 (\<lambda>i i'. i' = f i) xs (map f xs)"
  by (simp add: list_all2_map2 list_all2_same)

lemma list_all2_id: "list_all2 (\<lambda>i i'. i' = i) xs xs"
  by (simp add: list_all2_same)

lemma resolveIssue_frame:
  assumes "resolveIssue rt d authHeader issueId = (r, d')"
  shows "d'\<lparr> securityIssuesTable := securityIssuesTable d \<rparr> = d
       \<and> (statusCode r = OK) = (\<exists>k. principal rt d authHeader = Some k \<and> ownsIssue d k issueId)
       \<and> list_all2 (\<lambda>i i'. i' = (if statusCode r = OK \<and> issue_id i = issueId
                                  then i\<lparr> resolved := True \<rparr> else i))
           (securityIssuesTable d) (securityIssuesTable d')"
proof (cases "principal rt d authHeader")
  case None
  from resolveIssue_unauthenticated [OF None, of issueId] assms
  obtain m where "r = errorResponse m UNAUTHORIZED" "d' = d" by auto
  with None show ?thesis
    by (simp add: status_distinct list_all2_id)
next
  case (Some k)
  show ?thesis
  proof (cases "ownsIssue d k issueId")
    case False
    from resolveIssue_not_owned [OF Some False] assms
    have "r = errorResponse ''Issue not found'' NOT_FOUND" "d' = d" by auto
    with Some False show ?thesis
      by (simp add: status_distinct list_all2_id)
  next
    case True
    from resolveIssue_owned [OF Some True] assms
    have r: "statusCode r = OK"
      and d: "d' = d\<lparr> securityIssuesTable :=
                 map (\<lambda>i. if issue_id i = issueId then i\<lparr> resolved := True \<rparr> else i)
                   (securityIssuesTable d) \<rparr>"
      by auto
    from Some True r d show ?thesis
      by (simp add: list_all2_map_fun)
  qed
qed

lemma markFalsePositive_frame:
  assumes "markFalsePositive rt d authHeader issueId = (r, d')"
  shows "d'\<lparr> securityIssuesTable := securityIssuesTable d \<rparr> = d
       \<and> (statusCode r = OK) = (\<exists>k. principal rt d authHeader = Some k \<and> ownsIssue d k issueId)
       \<and> list_all2 (\<lambda>i i'. i' = (if statusCode r = OK \<and> issue_id i = issueId
                                  then i\<lparr> falsePositive := True \<rparr> else i))
           (securityIssuesTable d) (securityIssuesTable d')"
proof (cases "principal rt d authHeader")
  case None
  from markFalsePositive_unauthenticated [OF None, of issueId] assms
  obtain m where "r = errorResponse m UNAUTHORIZED" "d' = d" by auto
  with None show ?thesis
    by (simp add: status_distinct list_all2_id)
next
  case (Some k)
  show ?thesis
  proof (cases "ownsIssue d k issueId")
    case False
    from markFalsePositive_not_owned [OF Some False] assms
    have "r = errorResponse ''Issue not found'' NOT_FOUND" "d' = d" by auto
    with Some False show ?thesis
      by (simp add: status_distinct list_all2_id)
  next
    case True
    from markFalsePositive_owned [OF Some True] assms
    have r: "statusCode r = OK"
      and d: "d' = d\<lparr> securityIssuesTable :=
                 map (\<lambda>i. if issue_id i = issueId then i\<lparr> falsePositive := True \<rparr> else i)
                   (securityIssuesTable d) \<rparr>"
      by auto
    from Some True r d show ?thesis
      by (simp add: list_all2_map_fun)
  qed
qed


lemma applyUpdateData_withSupplied: "applyUpdateData data i = withSupplied data i"
  by (simp add: applyUpdateData_def withSupplied_def Let_def split: option.splits)

lemma ownsIssue_row:
  "ownsIssue d k x
     = (\<exists>row\<in>set (issuesWithProject d). case row of ((i, s), p) \<Rightarrow> issue_id i = x \<and> projectOwnedBy k p)"
  unfolding verifyIssueOwnership_iff [symmetric] verifyIssueOwnership_def get_filter_Some by auto

lemma ownedIssueIds_set:
  "(x \<in> set (map (\<lambda>((i, s), p). issue_id i)
               (filter (\<lambda>((i, s), p). issue_id i \<in> set ids \<and> projectOwnedBy k p)
                  (issuesWithProject d))))
     = (x \<in> set ids \<and> ownsIssue d k x)"
  unfolding ownsIssue_row by force

lemma bulkUpdateIssues_unauthenticated:
  assumes "principal rt d authHeader = None"
  shows "\<exists>m. bulkUpdateIssues rt d authHeader data = (errorResponse m UNAUTHORIZED, d)"
  using principal_None_cases [OF assms] by (auto simp: bulkUpdateIssues_def)

lemma bulkUpdateIssues_authenticated:
  assumes "principal rt d authHeader = Some k"
  shows "bulkUpdateIssues rt d authHeader data =
     (let ownedIssueIds =
            map (\<lambda>((i, s), p). issue_id i)
              (filter (\<lambda>((i, s), p). issue_id i \<in> set (issueIds data) \<and> projectOwnedBy k p)
                 (issuesWithProject d));
          unauthorizedIds = filter (\<lambda>x. x \<notin> set ownedIssueIds) (issueIds data)
      in if unauthorizedIds \<noteq> []
         then (errorResponse
                 (''Some issues not found or unauthorized: '' @ joinWith '', '' unauthorizedIds)
                 NOT_FOUND, d)
         else if bulk_resolved data = None \<and> bulk_falsePositive data = None
         then (errorResponse ''No update fields provided'' BAD_REQUEST, d)
         else (case updateIssues (applyUpdateData data)
                      (\<lambda>i. issue_id i \<in> set ownedIssueIds) (securityIssuesTable d) of
                 (tbl', updatedIssues) \<Rightarrow>
                   (successResponse (BulkUpdated (length updatedIssues) updatedIssues)
                      ''Issues updated successfully'' OK,
                    d\<lparr> securityIssuesTable := tbl' \<rparr>)))"
  using principal_cases [OF assms] by (auto simp: bulkUpdateIssues_def)

lemma bulkUpdateIssues_frame:
  assumes "bulkUpdateIssues rt d authHeader data = (r, d')"
  shows "d'\<lparr> securityIssuesTable := securityIssuesTable d \<rparr> = d
       \<and> (statusCode r = OK)
           = (\<exists>k. principal rt d authHeader = Some k
                \<and> list_all (ownsIssue d k) (issueIds data)
                \<and> (bulk_resolved data \<noteq> None \<or> bulk_falsePositive data \<noteq> None))
       \<and> list_all2 (\<lambda>i i'. i' = (if statusCode r = OK \<and> issue_id i \<in> set (issueIds data)
                                  then withSupplied data i else i))
           (securityIssuesTable d) (securityIssuesTable d')"
proof (cases "principal rt d authHeader")
  case None
  from bulkUpdateIssues_unauthenticated [OF None, of data] assms
  obtain m where "r = errorResponse m UNAUTHORIZED" "d' = d" by auto
  with None show ?thesis
    by (simp add: status_distinct list_all2_id)
next
  case (Some k)
  let ?owned = "map (\<lambda>((i, s), p). issue_id i)
              (filter (\<lambda>((i, s), p). issue_id i \<in> set (issueIds data) \<and> projectOwnedBy k p)
                 (issuesWithProject d))"
  let ?un = "filter (\<lambda>x. x \<notin> set ?owned) (issueIds data)"
  note run = bulkUpdateIssues_authenticated [OF Some, of data, unfolded Let_def]
  have un: "(?un = []) = list_all (ownsIssue d k) (issueIds data)"
    by (simp add: filter_empty_conv list_all_iff ownedIssueIds_set del: set_map)
  show ?thesis
  proof (cases "?un = []")
    case False
    with run assms have "r = errorResponse
                 (''Some issues not found or unauthorized: '' @ joinWith '', '' ?un) NOT_FOUND"
      "d' = d"
      by simp_all
    with Some False un show ?thesis
      by (simp add: status_distinct list_all2_id)
  next
    case True
    show ?thesis
    proof (cases "bulk_resolved data = None \<and> bulk_falsePositive data = None")
      case none: True
      with run True assms have "r = errorResponse ''No update fields provided'' BAD_REQUEST" "d' = d"
        by simp_all
      with Some none show ?thesis
        by (simp add: status_distinct list_all2_id)
    next
      case some: False
      from True un have all: "list_all (ownsIssue d k) (issueIds data)" by simp
      have mem: "(x \<in> set ?owned) = (x \<in> set (issueIds data))" for x
        using all unfolding ownedIssueIds_set by (auto simp: list_all_iff)
      from run True some assms have r: "statusCode r = OK"
        and d: "d' = d\<lparr> securityIssuesTable :=
                 map (\<lambda>i. if issue_id i \<in> set ?owned then applyUpdateData data i else i)
                   (securityIssuesTable d) \<rparr>"
        by (auto simp: updateIssues_def)
      have "map (\<lambda>i. if issue_id i \<in> set ?owned then applyUpdateData data i else i)
                   (securityIssuesTable d)
            = map (\<lambda>i. if issue_id i \<in> set (issueIds data) then withSupplied data i else i)
                   (securityIssuesTable d)"
        by (simp only: mem applyUpdateData_withSupplied)
      with d have d2: "d' = d\<lparr> securityIssuesTable :=
                 map (\<lambda>i. if issue_id i \<in> set (issueIds data) then withSupplied data i else i)
                   (securityIssuesTable d) \<rparr>"
        by simp
      from Some all some r show ?thesis
        unfolding d2 by (simp add: list_all2_map_fun)
    qed
  qed
qed


lemma db1_runs:
  "resolveIssue rt0 db1 (Some ''Bearer secret1'') ''uxx''
     = (successResponse
          (UpdatedIssue (Some ((storedFinding ''low'' 0.8 ''uxx'' 1005)\<lparr> resolved := True \<rparr>)))
          ''Issue marked as resolved'' OK, db1Resolved)"
  "markFalsePositive rt0 db1 (Some ''Bearer secret1'') ''uxx''
     = (successResponse
          (UpdatedIssue (Some ((storedFinding ''low'' 0.8 ''uxx'' 1005)\<lparr> falsePositive := True \<rparr>)))
          ''Issue marked as false positive'' OK, db1Marked)"
  "bulkUpdateIssues rt0 db1 (Some ''Bearer secret1'') resolveTwo
     = (successResponse
          (BulkUpdated 2 [(storedFinding ''critical'' 0.8 ''ux'' 1004)\<lparr> resolved := True \<rparr>,
                          (storedFinding ''high'' 0.5 ''uxxx'' 1006)\<lparr> resolved := True \<rparr>])
          ''Issues updated successfully'' OK, db1Bulk)"
  "bulkUpdateIssues rt0 db1 (Some ''Bearer secret1'') (resolveTwo\<lparr> issueIds := [''ux'', ''i9''] \<rparr>)
     = (errorResponse ''Some issues not found or unauthorized: i9'' NOT_FOUND, db1)"
  by code_simp+

text \<open>
  C9, as the code has it. None of \<open>resolve\<close>, \<open>markFalsePositive\<close> and the bulk update adds,
  removes or reorders rows of \<open>security_issues\<close> or touches another table, and each
  changes rows only when it answers with status 200.
  \<^item> \<open>resolve\<close> succeeds exactly when the caller is authenticated and has an ownership chain
    to the id; it then sets \<open>resolved\<close> to true in the rows of that id and leaves every other
    row, and every other field, as it is.
  \<^item> \<open>markFalsePositive\<close> does the same with \<open>falsePositive\<close>.
  \<^item> The bulk update succeeds exactly when the caller is authenticated, has an ownership
    chain to every listed id and supplies at least one of the two fields; it then writes
    the supplied values of \<open>resolved\<close> and \<open>falsePositive\<close> into the rows of the listed ids
    and leaves every other row, and every other field, as it is.
  \<^item> \<open>startAnalysis\<close> only appends rows.
\<close>

theorem finding_updates_frame:
  "(resolveIssue rt d authHeader issueId = (r, d') \<longrightarrow>
      d'\<lparr> securityIssuesTable := securityIssuesTable d \<rparr> = d
      \<and> (statusCode r = OK) = (\<exists>k. principal rt d authHeader = Some k \<and> ownsIssue d k issueId)
      \<and> list_all2 (\<lambda>i i'. i' = (if statusCode r = OK \<and> issue_id i = issueId
                                 then i\<lparr> resolved := True \<rparr> else i))
          (securityIssuesTable d) (securityIssuesTable d'))
   \<and> (markFalsePositive rt d authHeader issueId = (r, d') \<longrightarrow>
      d'\<lparr> securityIssuesTable := securityIssuesTable d \<rparr> = d
      \<and> (statusCode r = OK) = (\<exists>k. principal rt d authHeader = Some k \<and> ownsIssue d k issueId)
      \<and> list_all2 (\<lambda>i i'. i' = (if statusCode r = OK \<and> issue_id i = issueId
                                 then i\<lparr> falsePositive := True \<rparr> else i))
          (securityIssuesTable d) (securityIssuesTable d'))
   \<and> (bulkUpdateIssues rt d authHeader data = (r, d') \<longrightarrow>
      d'\<lparr> securityIssuesTable := securityIssuesTable d \<rparr> = d
      \<and> (statusCode r = OK)
          = (\<exists>k. principal rt d authHeader = Some k
               \<and> list_all (ownsIssue d k) (issueIds data)
               \<and> (bulk_resolved data \<noteq> None \<or> bulk_falsePositive data \<noteq> None))
      \<and> list_all2 (\<lambda>i i'. i' = (if statusCode r = OK \<and> issue_id i \<in> set (issueIds data)
                                 then withSupplied data i else i))
          (securityIssuesTable d) (securityIssuesTable d'))
   \<and> (startAnalysis rt d authHeader pid = (r, d') \<longrightarrow>
      (\<exists>new. securityIssuesTable d' = securityIssuesTable d @ new))"
proof (intro conjI)
  show "resolveIssue rt d authHeader issueId = (r, d') \<longrightarrow>
      d'\<lparr> securityIssuesTable := securityIssuesTable d \<rparr> = d
      \<and> (statusCode r = OK) = (\<exists>k. principal rt d authHeader = Some k \<and> ownsIssue d k issueId)
      \<and> list_all2 (\<lambda>i i'. i' = (if statusCode r = OK \<and> issue_id i = issueId
                                 then i\<lparr> resolved := True \<rparr> else i))
          (securityIssuesTable d) (securityIssuesTable d')"
    by (rule impI) (rule resolveIssue_frame)
  show "markFalsePositive rt d authHeader issueId = (r, d') \<longrightarrow>
      d'\<lparr> securityIssuesTable := securityIssuesTable d \<rparr> = d
      \<and> (statusCode r = OK) = (\<exists>k. principal rt d authHeader = Some k \<and> ownsIssue d k issueId)
      \<and> list_all2 (\<lambda>i i'. i' = (if statusCode r = OK \<and> issue_id i = issueId
                                 then i\<lparr> falsePositive := True \<rparr> else i))
          (securityIssuesTable d) (securityIssuesTable d')"
    by (rule impI) (rule markFalsePositive_frame)
  show "bulkUpdateIssues rt d authHeader data = (r, d') \<longrightarrow>
      d'\<lparr> securityIssuesTable := securityIssuesTable d \<rparr> = d
      \<and> (statusCode r = OK)
          = (\<exists>k. principal rt d authHeader = Some k
               \<and> list_all (ownsIssue d k) (issueIds data)
               \<and> (bulk_resolved data \<noteq> None \<or> bulk_falsePositive data \<noteq> None))
      \<and> list_all2 (\<lambda>i i'. i' = (if statusCode r = OK \<and> issue_id i \<in> set (issueIds data)
                                 then withSupplied data i else i))
          (securityIssuesTable d) (securityIssuesTable d')"
    by (rule impI) (rule bulkUpdateIssues_frame)
  show "startAnalysis rt d authHeader pid = (r, d') \<longrightarrow>
      (\<exists>new. securityIssuesTable d' = securityIssuesTable d @ new)"
    by (rule impI) (rule startAnalysis_frame)
qed

theorem finding_updates_frame_witness:
  "resolveIssue rt0 db1 (Some ''Bearer secret1'') ''uxx''
     = (successResponse
          (UpdatedIssue (Some ((storedFinding ''low'' 0.8 ''uxx'' 1005)\<lparr> resolved := True \<rparr>)))
          ''Issue marked as resolved'' OK, db1Resolved)
   \<and> list_all2 (\<lambda>i i'. i' = (if issue_id i = ''uxx'' then i\<lparr> resolved := True \<rparr> else i))
        (securityIssuesTable db1) (securityIssuesTable db1Resolved)
   \<and> markFalsePositive rt0 db1 (Some ''Bearer secret1'') ''uxx''
     = (successResponse
          (UpdatedIssue (Some ((storedFinding ''low'' 0.8 ''uxx'' 1005)\<lparr> falsePositive := True \<rparr>)))
          ''Issue marked as false positive'' OK, db1Marked)
   \<and> list_all2 (\<lambda>i i'. i' = (if issue_id i = ''uxx'' then i\<lparr> falsePositive := True \<rparr> else i))
        (securityIssuesTable db1) (securityIssuesTable db1Marked)
   \<and> bulkUpdateIssues rt0 db1 (Some ''Bearer secret1'') resolveTwo
     = (successResponse
          (BulkUpdated 2 [(storedFinding ''critical'' 0.8 ''ux'' 1004)\<lparr> resolved := True \<rparr>,
                          (storedFinding ''high'' 0.5 ''uxxx'' 1006)\<lparr> resolved := True \<rparr>])
          ''Issues updated successfully'' OK, db1Bulk)
   \<and> list_all2 (\<lambda>i i'. i' = (if issue_id i \<in> set [''ux'', ''uxxx''] then withSupplied resolveTwo i else i))
        (securityIssuesTable db1) (securityIssuesTable db1Bulk)
   \<and> list_all (ownsIssue db1 ''k1'') [''ux'', ''uxxx'']
   \<and> bulkUpdateIssues rt0 db1 (Some ''Bearer secret1'') (resolveTwo\<lparr> issueIds := [''ux'', ''i9''] \<rparr>)
     = (errorResponse ''Some issues not found or unauthorized: i9'' NOT_FOUND, db1)
   \<and> startAnalysis rt0 db0 (Some ''Bearer secret1'') ''p1''
       = (successResponse (AnalysisResults session1 issues1) ''Analysis completed successfully'' CREATED, db1)
   \<and> securityIssuesTable db1 = securityIssuesTable db0 @ issues1"
proof -
  note t1 = finding_updates_frame [THEN conjunct1, rule_format, OF db1_runs(1)]
  note t2 = finding_updates_frame [THEN conjunct2, THEN conjunct1, rule_format, OF db1_runs(2)]
  note t3 = finding_updates_frame
    [THEN conjunct2, THEN conjunct2, THEN conjunct1, rule_format, OF db1_runs(3)]
  from t1
  have 1: "list_all2 (\<lambda>i i'. i' = (if issue_id i = ''uxx'' then i\<lparr> resolved := True \<rparr> else i))
        (securityIssuesTable db1) (securityIssuesTable db1Resolved)"
    by simp
  from t2
  have 2: "list_all2 (\<lambda>i i'. i' = (if issue_id i = ''uxx'' then i\<lparr> falsePositive := True \<rparr> else i))
        (securityIssuesTable db1) (securityIssuesTable db1Marked)"
    by simp
  have p: "principal rt0 db1 (Some ''Bearer secret1'') = Some ''k1''"
    by (simp add: principal_def getApiKeyFromHeader_def startsWith_def validateApiKey_def get_def
        rt0_def db1_def db0_def)
  from t3 p
  have 3: "list_all2 (\<lambda>i i'. i' = (if issue_id i \<in> set [''ux'', ''uxxx''] then withSupplied resolveTwo i else i))
        (securityIssuesTable db1) (securityIssuesTable db1Bulk)"
    and 4: "list_all (ownsIssue db1 ''k1'') [''ux'', ''uxxx'']"
    by (simp_all add: resolveTwo_def)
  have 5: "securityIssuesTable db1 = securityIssuesTable db0 @ issues1"
    by (simp add: db1_def db0_def)
  show ?thesis
    by (intro conjI db1_runs run_demo 1 2 3 4 5)
qed

text \<open>
  C9 as stated fails: the bulk update is a mutation of a stored finding that is neither
  \<open>resolve\<close> nor \<open>markFalsePositive\<close>. Here it takes the resolved finding \<open>i9\<close> back to
  unresolved and marks it as a false positive in one step.
\<close>

theorem bulk_update_counterexample:
  "bulkUpdateIssues rt0 dbResolved (Some ''Bearer secret2'') reopenAndMark
     = (successResponse (BulkUpdated 1 [issue9\<lparr> falsePositive := True \<rparr>])
          ''Issues updated successfully'' OK, dbMarked)
   \<and> securityIssuesTable dbResolved = [issue9\<lparr> resolved := True \<rparr>]
   \<and> securityIssuesTable dbMarked = [issue9\<lparr> falsePositive := True \<rparr>]
   \<and> resolved (issue9\<lparr> resolved := True \<rparr>)
   \<and> \<not> resolved (issue9\<lparr> falsePositive := True \<rparr>)
   \<and> \<not> falsePositive (issue9\<lparr> resolved := True \<rparr>)
   \<and> falsePositive (issue9\<lparr> falsePositive := True \<rparr>)"
  using update_runs(2) by (simp add: dbResolved_def dbMarked_def issue9_def)

section \<open>The candidate payload\<close>

lemma greedyTail_eq:
  "greedyTail cs =
     (if CHR ''}'' \<in> set cs then Some (rev (dropWhile (\<lambda>c. c \<noteq> CHR ''}'') (rev cs))) else None)"
proof (induction cs)
  case Nil
  then show ?case by simp
next
  case (Cons c cs)
  show ?case
  proof (cases "CHR ''}'' \<in> set cs")
    case True
    then have "dropWhile (\<lambda>c. c \<noteq> CHR ''}'') (rev cs @ [c])
                 = dropWhile (\<lambda>c. c \<noteq> CHR ''}'') (rev cs) @ [c]"
      by (intro dropWhile_append1 [of "CHR ''}''"]) simp_all
    with True Cons show ?thesis by simp
  next
    case False
    then have "dropWhile (\<lambda>c. c \<noteq> CHR ''}'') (rev cs @ [c]) = dropWhile (\<lambda>c. c \<noteq> CHR ''}'') [c]"
      by (intro dropWhile_append2) auto
    with False Cons show ?thesis by (cases "c = CHR ''}''") simp_all
  qed
qed

lemma jsonMatch_eq:
  "jsonMatch text =
     (let t = dropWhile (\<lambda>c. c \<noteq> CHR ''{'') text
      in if CHR ''}'' \<in> set t then Some (rev (dropWhile (\<lambda>c. c \<noteq> CHR ''}'') (rev t))) else None)"
proof (induction "text")
  case Nil
  then show ?case by simp
next
  case (Cons c cs)
  show ?case
  proof (cases "c = CHR ''{''")
    case False
    with Cons show ?thesis by simp
  next
    case True
    show ?thesis
    proof (cases "CHR ''}'' \<in> set cs")
      case in_cs: True
      then have "dropWhile (\<lambda>c. c \<noteq> CHR ''}'') (rev cs @ [c])
                 = dropWhile (\<lambda>c. c \<noteq> CHR ''}'') (rev cs) @ [c]"
        by (intro dropWhile_append1 [of "CHR ''}''"]) simp_all
      with True in_cs show ?thesis
        by (simp add: greedyTail_eq)
    next
      case not_in_cs: False
      then have "CHR ''}'' \<notin> set (dropWhile (\<lambda>c. c \<noteq> CHR ''{'') cs)"
        using set_dropWhileD by fastforce
      with Cons have "jsonMatch cs = None"
        by (simp add: Let_def)
      with True not_in_cs show ?thesis
        by (simp add: greedyTail_eq)
    qed
  qed
qed

lemma no_fence_no_codeBlock: "\<not> hasFence text \<Longrightarrow> codeBlockMatch text = None"
  by (induction "text") (simp_all add: codeBlockAt_def stripPrefix_def)

text \<open>
  C6, as the code has it. When the fence pattern does not match, as in every text without
  a code fence, the candidate payload is the text from the first opening brace to the last
  closing brace after it, and empty when there is none.
\<close>

theorem fallback_candidate:
  "(\<not> hasFence text \<longrightarrow> codeBlockMatch text = None)
   \<and> (codeBlockMatch text = None \<longrightarrow> jsonText text = braceSpan text)"
  using no_fence_no_codeBlock [of "text"]
  by (simp add: jsonText_def jsonMatch_eq braceSpan_def Let_def)

theorem fallback_candidate_witness:
  "\<not> hasFence ''{\"a\":1} trailing prose {''
   \<and> codeBlockMatch ''{\"a\":1} trailing prose {'' = None
   \<and> jsonText ''{\"a\":1} trailing prose {'' = ''{\"a\":1}''
   \<and> braceSpan ''{\"a\":1} trailing prose {'' = ''{\"a\":1}''
   \<and> firstBalanced ''{\"a\":1} trailing prose {'' = Some ''{\"a\":1}''"
proof -
  have a: "\<not> hasFence ''{\"a\":1} trailing prose {''"
    by (simp add: startsWith_def)
  have b: "braceSpan ''{\"a\":1} trailing prose {'' = ''{\"a\":1}''"
    by (simp add: braceSpan_def)
  have c: "firstBalanced ''{\"a\":1} trailing prose {'' = Some ''{\"a\":1}''"
    by simp
  from fallback_candidate [of "''{\"a\":1} trailing prose {''"] a b c show ?thesis
    by simp
qed

text \<open>
  C6 as stated fails: the candidate of a text with two objects and no fence spans both,
  while the first balanced object is the first of them.
\<close>

theorem first_balanced_counterexample:
  "\<not> hasFence ''{} {}'' \<and> jsonText ''{} {}'' = ''{} {}'' \<and> firstBalanced ''{} {}'' = Some ''{}''"
  by (simp add: jsonText_def codeBlockAt_def stripPrefix_def startsWith_def)

section \<open>Fenced payloads\<close>

lemma backtick_not_space: "\<not> isSpace (CHR ''`'')" "\<not> isSpace (CHR ''{'')" "\<not> isSpace (CHR ''}'')"
  "\<not> isSpace (CHR ''j'')"
  by (simp_all add: isSpace_def)

lemma dropWhile_spaces: "list_all isSpace ws \<Longrightarrow> \<not> isSpace c \<Longrightarrow> dropWhile isSpace (ws @ c # r) = c # r"
  by (induction ws) simp_all

lemma codeBlockAt_in_prose:
  assumes "s \<noteq> []" and "\<not> hasFence s"
  shows "codeBlockAt (s @ ''```'' @ rest) = None"
proof (cases s)
  case Nil
  with assms show ?thesis by simp
next
  case 1: (Cons a s1)
  show ?thesis
  proof (cases s1)
    case Nil
    with 1 show ?thesis
      by (simp add: codeBlockAt_def stripPrefix_def startsWith_def afterFence_def backtick_not_space)
  next
    case 2: (Cons b s2)
    show ?thesis
    proof (cases s2)
      case Nil
      with 1 2 show ?thesis
        by (simp add: codeBlockAt_def stripPrefix_def startsWith_def afterFence_def backtick_not_space)
    next
      case (Cons c s3)
      from assms(2) have "\<not> startsWith ''```'' s"
        unfolding 1 by simp
      then have "\<not> startsWith ''```'' (s @ ''```'' @ rest)"
        unfolding 1 2 Cons by (simp add: startsWith_def)
      then show ?thesis
        by (simp add: codeBlockAt_def stripPrefix_def)
    qed
  qed
qed

lemma codeBlockMatch_skips_prose:
  "\<not> hasFence pre \<Longrightarrow> codeBlockMatch (pre @ ''```'' @ rest) = codeBlockMatch (''```'' @ rest)"
proof (induction pre)
  case Nil
  then show ?case by simp
next
  case (Cons c pre)
  then have "codeBlockAt ((c # pre) @ ''```'' @ rest) = None"
    by (intro codeBlockAt_in_prose) simp_all
  moreover from Cons have "codeBlockMatch (pre @ ''```'' @ rest) = codeBlockMatch (''```'' @ rest)"
    by simp
  ultimately show ?case by simp
qed

lemma no_fence_after_spaces:
  "\<not> hasFence m \<Longrightarrow> \<not> startsWith ''```'' (dropWhile isSpace (m @ CHR ''}'' # r))"
proof (induction m)
  case Nil
  then show ?case by (simp add: backtick_not_space startsWith_def)
next
  case (Cons c m)
  show ?case
  proof (cases "isSpace c")
    case True
    with Cons show ?thesis by simp
  next
    case False
    with Cons.prems show ?thesis
      by (cases m; cases "tl m") (auto simp: startsWith_def)
  qed
qed

lemma lazyGroupTail_payload:
  assumes "\<not> hasFence mid" and "list_all isSpace ws"
  shows "lazyGroupTail (mid @ ''}'' @ ws @ ''```'' @ post) = Some (mid @ ''}'')"
  using assms(1)
proof (induction mid)
  case Nil
  have "dropWhile isSpace (ws @ CHR ''`'' # ''``'' @ post) = CHR ''`'' # ''``'' @ post"
    using assms(2) by (intro dropWhile_spaces) (simp_all add: backtick_not_space)
  then show ?case by (simp add: startsWith_def)
next
  case (Cons c mid)
  then have "\<not> hasFence mid" by simp
  from no_fence_after_spaces [OF this]
  have "\<not> startsWith ''```'' (dropWhile isSpace (mid @ ''}'' @ ws @ ''```'' @ post))"
    by simp
  with Cons show ?case by simp
qed

lemma afterFence_payload:
  assumes "list_all isSpace ws1" and "\<not> hasFence mid" and "list_all isSpace ws2"
  shows "afterFence (ws1 @ ''{'' @ mid @ ''}'' @ ws2 @ ''```'' @ post) = Some (''{'' @ mid @ ''}'')"
proof -
  have "dropWhile isSpace (ws1 @ CHR ''{'' # mid @ ''}'' @ ws2 @ ''```'' @ post)
          = CHR ''{'' # mid @ ''}'' @ ws2 @ ''```'' @ post"
    using assms(1) by (intro dropWhile_spaces) (simp_all add: backtick_not_space)
  then show ?thesis
    using lazyGroupTail_payload [OF assms(2,3), of post] by (simp add: afterFence_def)
qed

lemma codeBlockAt_payload:
  assumes "tag = [] \<or> tag = ''json''"
    and "list_all isSpace ws1" and "\<not> hasFence mid" and "list_all isSpace ws2"
  shows "codeBlockAt (''```'' @ tag @ ws1 @ ''{'' @ mid @ ''}'' @ ws2 @ ''```'' @ post)
           = Some (''{'' @ mid @ ''}'')"
proof -
  note af = afterFence_payload [OF assms(2-4), of post]
  from assms(1) show ?thesis
  proof
    assume "tag = ''json''"
    with af show ?thesis
      by (simp add: codeBlockAt_def stripPrefix_def startsWith_def)
  next
    assume tag: "tag = []"
    have "\<not> startsWith ''json'' (ws1 @ ''{'' @ mid @ ''}'' @ ws2 @ ''```'' @ post)"
      using assms(2) by (cases ws1) (auto simp: startsWith_def backtick_not_space)
    with af tag show ?thesis
      by (simp add: codeBlockAt_def stripPrefix_def startsWith_def)
  qed
qed

lemma jsonText_fenced:
  assumes "\<not> hasFence pre" and "tag = [] \<or> tag = ''json''"
    and "list_all isSpace ws1" and "\<not> hasFence mid" and "list_all isSpace ws2"
  shows "jsonText (pre @ ''```'' @ tag @ ws1 @ ''{'' @ mid @ ''}'' @ ws2 @ ''```'' @ post)
           = ''{'' @ mid @ ''}''"
proof -
  have "codeBlockMatch (pre @ ''```'' @ tag @ ws1 @ ''{'' @ mid @ ''}'' @ ws2 @ ''```'' @ post)
          = codeBlockMatch (''```'' @ tag @ ws1 @ ''{'' @ mid @ ''}'' @ ws2 @ ''```'' @ post)"
    using assms(1) by (rule codeBlockMatch_skips_prose)
  also have "\<dots> = Some (''{'' @ mid @ ''}'')"
    using codeBlockAt_payload [OF assms(2-5), of post] by simp
  finally show ?thesis
    by (simp add: jsonText_def)
qed

lemma jsonText_no_brace: "CHR ''{'' \<notin> set t \<Longrightarrow> jsonText t = []"
proof -
  assume no: "CHR ''{'' \<notin> set t"
  have at: "codeBlockAt s = None" if "CHR ''{'' \<notin> set s" for s
  proof -
    have "afterFence r = None" if "CHR ''{'' \<notin> set r" for r
    proof (cases "dropWhile isSpace r")
      case Nil
      show ?thesis unfolding afterFence_def Nil by simp
    next
      case (Cons c cs)
      then have "c \<in> set r"
        by (metis list.set_intros(1) set_dropWhileD)
      with that have "c \<noteq> CHR ''{''" by auto
      with Cons show ?thesis by (simp add: afterFence_def)
    qed
    moreover have "CHR ''{'' \<notin> set (drop n s)" for n
      using \<open>CHR ''{'' \<notin> set s\<close> in_set_dropD by fastforce
    ultimately show ?thesis
      by (simp add: codeBlockAt_def stripPrefix_def split: option.splits)
  qed
  from no have "codeBlockMatch t = None"
    by (induction t) (simp_all add: at)
  moreover from no have "dropWhile (\<lambda>c. c \<noteq> CHR ''{'') t = []"
    by auto
  then have "jsonMatch t = None"
    by (simp only: jsonMatch_eq Let_def) simp
  ultimately show ?thesis
    by (simp add: jsonText_def)
qed


lemma analyzeCode_valid:
  assumes "jsonText t \<noteq> []" and "parse (jsonText t) = Some j"
    and "VulnerabilityDetectionSchema_parse j = Some vs"
  shows "analyzeCode parse (Text t) n = vs"
proof -
  have "filePath v \<noteq> []" if "v \<in> set vs" for v
    using schema_parse_valid [OF assms(3) that] zVulnerability_Some by blast
  then have "map (\<lambda>vuln. vuln\<lparr> filePath := (if filePath vuln = [] then n @ ''/main.js''
                                               else filePath vuln) \<rparr>) vs = vs"
    by (simp add: map_idI)
  moreover from assms(1) have "t \<noteq> []"
    by (auto simp: jsonText_def)
  ultimately show ?thesis
    using assms by (simp add: analyzeCode_def)
qed

text \<open>
  C5, as the code has it. \<open>analyzeCode\<close> never raises: on every outcome of the call it
  returns the empty list or exactly the validated findings of its candidate payload. For a
  text \<open>pre ```json ws1 {mid} ws2 ``` post\<close> (the tag may be missing) in which neither the
  prose in front nor the inside of the payload holds a code fence, and whose payload
  parses and validates, it returns exactly the findings of the payload, whatever the
  prose. For a text without an opening brace, and for a candidate that fails to parse, it
  returns the empty list.
\<close>

theorem extractor_tolerance:
  "(analyzeCode parse u projectName = []
      \<or> (\<exists>t j vs. u = Text t \<and> parse (jsonText t) = Some j
            \<and> VulnerabilityDetectionSchema_parse j = Some vs \<and> analyzeCode parse u projectName = vs))
   \<and> (\<not> hasFence pre \<and> (tag = [] \<or> tag = ''json'') \<and> list_all isSpace ws1 \<and> \<not> hasFence mid
        \<and> list_all isSpace ws2 \<and> parse (''{'' @ mid @ ''}'') = Some j
        \<and> VulnerabilityDetectionSchema_parse j = Some vs \<longrightarrow>
       analyzeCode parse
         (Text (pre @ ''```'' @ tag @ ws1 @ ''{'' @ mid @ ''}'' @ ws2 @ ''```'' @ post)) projectName = vs)
   \<and> (CHR ''{'' \<notin> set t \<longrightarrow> analyzeCode parse (Text t) projectName = [])
   \<and> (parse (jsonText t) = None \<longrightarrow> analyzeCode parse (Text t) projectName = [])"
proof (intro conjI impI)
  show "analyzeCode parse u projectName = []
      \<or> (\<exists>t j vs. u = Text t \<and> parse (jsonText t) = Some j
            \<and> VulnerabilityDetectionSchema_parse j = Some vs \<and> analyzeCode parse u projectName = vs)"
    by (rule analyzeCode_cases)
next
  assume a: "\<not> hasFence pre \<and> (tag = [] \<or> tag = ''json'') \<and> list_all isSpace ws1 \<and> \<not> hasFence mid
        \<and> list_all isSpace ws2 \<and> parse (''{'' @ mid @ ''}'') = Some j
        \<and> VulnerabilityDetectionSchema_parse j = Some vs"
  let ?t = "pre @ ''```'' @ tag @ ws1 @ ''{'' @ mid @ ''}'' @ ws2 @ ''```'' @ post"
  from a have c: "jsonText ?t = ''{'' @ mid @ ''}''"
    by (intro jsonText_fenced) simp_all
  then have "jsonText ?t \<noteq> []" by simp
  moreover from a c have "parse (jsonText ?t) = Some j" by simp
  ultimately show "analyzeCode parse (Text ?t) projectName = vs"
    using a by (intro analyzeCode_valid [of ?t parse j]) simp_all
next
  assume "CHR ''{'' \<notin> set t"
  then show "analyzeCode parse (Text t) projectName = []"
    by (simp add: analyzeCode_def jsonText_no_brace)
next
  assume "parse (jsonText t) = None"
  then show "analyzeCode parse (Text t) projectName = []"
    by (simp add: analyzeCode_def)
qed

lemma payload_runs:
  "Option.bind (jsonParse (''{'' @ inner3 @ ''}'')) VulnerabilityDetectionSchema_parse = Some findings3"
  "Option.bind (jsonParse payload6) VulnerabilityDetectionSchema_parse = Some [finding6]"
  "jsonText answer5 = ''{}''"
  "analyzeCode jsonParse (Text answer5) ''demo'' = []"
  "analyzeCode jsonParse (Text answer6) ''demo'' = []"
  "jsonParse (jsonText ''{not json}'') = None"
  "\<not> hasFence inner3"
  by code_simp+

theorem extractor_tolerance_witness:
  "\<not> hasFence ''Here is the report: '' \<and> list_all isSpace '' '' \<and> \<not> hasFence inner3
   \<and> Option.bind (jsonParse (''{'' @ inner3 @ ''}'')) VulnerabilityDetectionSchema_parse = Some findings3
   \<and> analyzeCode jsonParse
        (Text (''Here is the report: '' @ ''```'' @ ''json'' @ '' '' @ ''{'' @ inner3 @ ''}'' @ '' ''
                 @ ''```'' @ '' Done.'')) ''demo'' = findings3
   \<and> CHR ''{'' \<notin> set ''I found nothing to report.''
   \<and> analyzeCode jsonParse (Text ''I found nothing to report.'') ''demo'' = []
   \<and> jsonParse (jsonText ''{not json}'') = None
   \<and> analyzeCode jsonParse (Text ''{not json}'') ''demo'' = []"
proof -
  have a: "\<not> hasFence ''Here is the report: ''" "list_all isSpace '' ''"
    by (simp_all add: startsWith_def isSpace_def)
  from payload_runs(1) obtain j where j: "jsonParse (''{'' @ inner3 @ ''}'') = Some j"
    "VulnerabilityDetectionSchema_parse j = Some findings3"
    by (auto simp: Option.bind_eq_Some_conv)
  have b: "CHR ''{'' \<notin> set ''I found nothing to report.''"
    by simp
  from extractor_tolerance
         [of jsonParse Throws "''demo''" "''Here is the report: ''" "''json''" "'' ''" inner3 "'' ''" j
             findings3 "'' Done.''" "''I found nothing to report.''"]
       a payload_runs(7) j b
  have 1: "analyzeCode jsonParse
        (Text (''Here is the report: '' @ ''```'' @ ''json'' @ '' '' @ ''{'' @ inner3 @ ''}'' @ '' ''
                 @ ''```'' @ '' Done.'')) ''demo'' = findings3"
    and 2: "analyzeCode jsonParse (Text ''I found nothing to report.'') ''demo'' = []"
    by simp_all
  from extractor_tolerance [of jsonParse Throws "''demo''" _ _ _ _ _ _ _ _ "''{not json}''"]
       payload_runs(6)
  have 3: "analyzeCode jsonParse (Text ''{not json}'') ''demo'' = []"
    by simp
  from a payload_runs(1,6,7) b 1 2 3 show ?thesis
    by simp
qed

text \<open>
  C5 as stated fails on two texts that hold a fenced block with a valid payload, for which
  the findings of the payload are not returned: in \<open>answer5\<close> the prose in front quotes an empty object
  between fences, which becomes the candidate; in \<open>answer6\<close> a code snippet of the payload
  ends in a closing brace and a fence, where the candidate is cut.
\<close>

theorem extractor_counterexample:
  "answer5 = ''Write ```{}``` for no finding. '' @ ''```json '' @ ''{'' @ inner3 @ ''}'' @ '' ```''
   \<and> Option.bind (jsonParse (''{'' @ inner3 @ ''}'')) VulnerabilityDetectionSchema_parse = Some findings3
   \<and> jsonText answer5 = ''{}''
   \<and> analyzeCode jsonParse (Text answer5) ''demo'' = []
   \<and> findings3 \<noteq> []
   \<and> answer6 = ''```json '' @ payload6 @ '' ```''
   \<and> Option.bind (jsonParse payload6) VulnerabilityDetectionSchema_parse = Some [finding6]
   \<and> analyzeCode jsonParse (Text answer6) ''demo'' = []"
  using payload_runs(1-5) by (simp add: answer5_def payload3_def answer6_def findings3_def)

section \<open>The score of an analysis\<close>

lemma owned_project_exists:
  "verifyProjectOwnership d pid k \<Longrightarrow>
   \<exists>proj. get (filter (\<lambda>p. project_id p = pid) (projectsTable d)) = Some proj"
proof -
  assume "verifyProjectOwnership d pid k"
  then have "\<exists>p\<in>set (projectsTable d). project_id p = pid"
    unfolding verifyProjectOwnership_def get_filter_Some by blast
  then have "get (filter (\<lambda>p. project_id p = pid) (projectsTable d)) \<noteq> None"
    unfolding get_filter_Some .
  then show ?thesis by blast
qed

lemma startAnalysis_authorized:
  assumes "principal rt d authHeader = Some k" and "verifyProjectOwnership d pid k"
    and "get (filter (\<lambda>p. project_id p = pid) (projectsTable d)) = Some proj"
    and "randomUUID rt 0 \<notin> set (map session_id (analysisSessionsTable d))"
  shows "\<exists>issues d'.
           startAnalysis rt d authHeader pid =
             (successResponse
                (AnalysisResults
                   (sessionValues rt pid
                      (analyzeCode (JSON_parse rt) (generateContent rt (content proj) (name proj))
                         (name proj)))
                   issues)
                ''Analysis completed successfully'' CREATED, d')
         \<and> analysisSessionsTable d' = analysisSessionsTable d
              @ [sessionValues rt pid
                   (analyzeCode (JSON_parse rt) (generateContent rt (content proj) (name proj))
                      (name proj))]"
proof -
  have sid: "session_id (sessionValues rt pid vs) = randomUUID rt 0" for vs
    by (simp add: sessionValues_def Let_def)
  from principal_cases [OF assms(1)] assms(2-4) show ?thesis
    by (auto simp: startAnalysis_def Let_def sid split: prod.splits)
qed

lemma sessionValues_score:
  "overallScore (sessionValues rt pid vs) = Some (aggregateScore vs)"
  by (simp add: sessionValues_def Let_def calcOverallScore_clamp aggregateScore_def)

text \<open>
  C1. The score that \<open>startAnalysis\<close> computes for a list of findings is
  \<open>clamp(10 - (3 critical + 2 high + 1 medium + 0.5 low), 0, 10)\<close> over the per-severity
  counts of the list: 10 for no finding, 7 for one critical finding, 2 for two critical
  and one high, 0 for four critical ones, and never negative. For an authenticated caller
  that owns the project, and a fresh session id, \<open>startAnalysis\<close> succeeds, and the session
  it returns and stores carries this score of the findings of \<open>analyzeCode\<close>; and every
  session a successful \<open>startAnalysis\<close> returns carries it and is stored.
\<close>

theorem overallScore_formula:
  "overallScore (sessionValues rt pid vs) = Some (aggregateScore vs)
   \<and> aggregateScore vs
       = clamp (10 - (3 * real (severityCount ''critical'' vs) + 2 * real (severityCount ''high'' vs)
                      + 1 * real (severityCount ''medium'' vs) + 0.5 * real (severityCount ''low'' vs)))
           0 10
   \<and> overallScore (sessionValues rt pid []) = Some 10
   \<and> overallScore (sessionValues rt pid [finding ''critical'' c]) = Some 7
   \<and> overallScore (sessionValues rt pid
         [finding ''critical'' c, finding ''critical'' c, finding ''high'' c]) = Some 2
   \<and> overallScore (sessionValues rt pid (replicate 4 (finding ''critical'' c))) = Some 0
   \<and> 0 \<le> aggregateScore vs \<and> aggregateScore vs \<le> 10
   \<and> (principal rt d authHeader = Some k \<and> verifyProjectOwnership d pid k
        \<and> randomUUID rt 0 \<notin> set (map session_id (analysisSessionsTable d)) \<longrightarrow>
      (\<exists>proj session issues d'.
         get (filter (\<lambda>p. project_id p = pid) (projectsTable d)) = Some proj
         \<and> startAnalysis rt d authHeader pid =
             (successResponse (AnalysisResults session issues)
                ''Analysis completed successfully'' CREATED, d')
         \<and> overallScore session
             = Some (aggregateScore
                       (analyzeCode (JSON_parse rt) (generateContent rt (content proj) (name proj))
                          (name proj)))
         \<and> analysisSessionsTable d' = analysisSessionsTable d @ [session]))
   \<and> (startAnalysis rt d authHeader pid
         = (successResponse (AnalysisResults session issues) msg st, d') \<longrightarrow>
      (\<exists>proj.
         get (filter (\<lambda>p. project_id p = pid) (projectsTable d)) = Some proj
         \<and> overallScore session
             = Some (aggregateScore
                       (analyzeCode (JSON_parse rt) (generateContent rt (content proj) (name proj))
                          (name proj)))
         \<and> analysisSessionsTable d' = analysisSessionsTable d @ [session]))"
proof -
  have a: "overallScore (sessionValues rt pid ws) = Some (calcOverallScore ws)" for ws
    by (simp add: sessionValues_def Let_def)
  have b: "calcOverallScore ([] :: vuln list) = 10"
    by (simp add: calcOverallScore_def)
  have c1: "calcOverallScore [finding ''critical'' c] = 7"
    by (simp add: calcOverallScore_def calcIssueCounts_def countSeverity_def finding_def)
  have c2: "calcOverallScore [finding ''critical'' c, finding ''critical'' c, finding ''high'' c] = 2"
    by (simp add: calcOverallScore_def calcIssueCounts_def countSeverity_def finding_def)
  have c3: "calcOverallScore (replicate 4 (finding ''critical'' c)) = 0"
    by (simp add: calcOverallScore_def calcIssueCounts_def countSeverity_def finding_def
        numeral_eq_Suc)
  have i1: "overallScore (sessionValues rt pid []) = Some 10"
    "overallScore (sessionValues rt pid [finding ''critical'' c]) = Some 7"
    "overallScore (sessionValues rt pid
         [finding ''critical'' c, finding ''critical'' c, finding ''high'' c]) = Some 2"
    "overallScore (sessionValues rt pid (replicate 4 (finding ''critical'' c))) = Some 0"
    unfolding a b c1 c2 c3 by simp_all
  have d: "0 \<le> aggregateScore vs" "aggregateScore vs \<le> 10"
    by (simp_all add: aggregateScore_def clamp_def)
  have e: "aggregateScore vs
       = clamp (10 - (3 * real (severityCount ''critical'' vs) + 2 * real (severityCount ''high'' vs)
                      + 1 * real (severityCount ''medium'' vs) + 0.5 * real (severityCount ''low'' vs)))
           0 10"
    by (simp add: aggregateScore_def)
  have f: "principal rt d authHeader = Some k \<and> verifyProjectOwnership d pid k
        \<and> randomUUID rt 0 \<notin> set (map session_id (analysisSessionsTable d)) \<longrightarrow>
      (\<exists>proj session issues d'.
         get (filter (\<lambda>p. project_id p = pid) (projectsTable d)) = Some proj
         \<and> startAnalysis rt d authHeader pid =
             (successResponse (AnalysisResults session issues)
                ''Analysis completed successfully'' CREATED, d')
         \<and> overallScore session
             = Some (aggregateScore
                       (analyzeCode (JSON_parse rt) (generateContent rt (content proj) (name proj))
                          (name proj)))
         \<and> analysisSessionsTable d' = analysisSessionsTable d @ [session])"
  proof (intro impI, elim conjE)
    assume p: "principal rt d authHeader = Some k" and o: "verifyProjectOwnership d pid k"
      and u: "randomUUID rt 0 \<notin> set (map session_id (analysisSessionsTable d))"
    from owned_project_exists [OF o] obtain proj where
      g: "get (filter (\<lambda>p. project_id p = pid) (projectsTable d)) = Some proj" by blast
    from startAnalysis_authorized [OF p o g u] g sessionValues_score
    show "\<exists>proj session issues d'.
         get (filter (\<lambda>p. project_id p = pid) (projectsTable d)) = Some proj
         \<and> startAnalysis rt d authHeader pid =
             (successResponse (AnalysisResults session issues)
                ''Analysis completed successfully'' CREATED, d')
         \<and> overallScore session
             = Some (aggregateScore
                       (analyzeCode (JSON_parse rt) (generateContent rt (content proj) (name proj))
                          (name proj)))
         \<and> analysisSessionsTable d' = analysisSessionsTable d @ [session]"
      by blast
  qed
  have g: "startAnalysis rt d authHeader pid
         = (successResponse (AnalysisResults session issues) msg st, d') \<longrightarrow>
      (\<exists>proj.
         get (filter (\<lambda>p. project_id p = pid) (projectsTable d)) = Some proj
         \<and> overallScore session
             = Some (aggregateScore
                       (analyzeCode (JSON_parse rt) (generateContent rt (content proj) (name proj))
                          (name proj)))
         \<and> analysisSessionsTable d' = analysisSessionsTable d @ [session])"
  proof
    assume run: "startAnalysis rt d authHeader pid
         = (successResponse (AnalysisResults session issues) msg st, d')"
    from startAnalysis_success [OF run] obtain proj vulns where
      "get (filter (\<lambda>p. project_id p = pid) (projectsTable d)) = Some proj"
      "vulns = analyzeCode (JSON_parse rt) (generateContent rt (content proj) (name proj)) (name proj)"
      "session = sessionValues rt pid vulns"
      "analysisSessionsTable d' = analysisSessionsTable d @ [sessionValues rt pid vulns]"
      by auto
    then show "\<exists>proj.
         get (filter (\<lambda>p. project_id p = pid) (projectsTable d)) = Some proj
         \<and> overallScore session
             = Some (aggregateScore
                       (analyzeCode (JSON_parse rt) (generateContent rt (content proj) (name proj))
                          (name proj)))
         \<and> analysisSessionsTable d' = analysisSessionsTable d @ [session]"
      using sessionValues_score by auto
  qed
  show ?thesis
    by (intro conjI sessionValues_score e i1 d f g)
qed

theorem overallScore_formula_witness:
  "principal rt0 db0 (Some ''Bearer secret1'') = Some ''k1''
   \<and> verifyProjectOwnership db0 ''p1'' ''k1''
   \<and> randomUUID rt0 0 \<notin> set (map session_id (analysisSessionsTable db0))
   \<and> startAnalysis rt0 db0 (Some ''Bearer secret1'') ''p1''
       = (successResponse (AnalysisResults session1 issues1) ''Analysis completed successfully'' CREATED, db1)
   \<and> analyzeCode (JSON_parse rt0) (generateContent rt0 ''eval(x)'' ''demo'') ''demo'' = findings3
   \<and> overallScore session1 = Some (aggregateScore findings3)
   \<and> aggregateScore findings3 = 4.5
   \<and> analysisSessionsTable db1 = analysisSessionsTable db0 @ [session1]
   \<and> startAnalysis rt0 db0 (Some ''Bearer secret1'') ''p2''
       = (successResponse (AnalysisResults session2 []) ''Analysis completed successfully'' CREATED, db2)
   \<and> overallScore session2 = Some (aggregateScore [])
   \<and> aggregateScore [] = 10"
proof -
  have a: "principal rt0 db0 (Some ''Bearer secret1'') = Some ''k1''"
    by (rule db0_facts(2))
  have b: "verifyProjectOwnership db0 ''p1'' ''k1''"
    by (simp add: verifyProjectOwnership_def db0_def get_def)
  have c: "randomUUID rt0 0 \<notin> set (map session_id (analysisSessionsTable db0))"
    by (simp add: rt0_def db0_def session9_def)
  have g: "get (filter (\<lambda>p. project_id p = ''p1'') (projectsTable db0))
            = Some \<lparr> project_id = ''p1'', apiKeyId = ''k1'', name = ''demo'', content = ''eval(x)'',
                     lastAnalyzedAt = None, updatedAt = 1 \<rparr>"
    by (simp add: db0_def get_def)
  have v: "analyzeCode (JSON_parse rt0) (generateContent rt0 ''eval(x)'' ''demo'') ''demo'' = findings3"
    using analyze_answer3 by (simp add: rt0_def)
  note t = overallScore_formula [of rt0 "''p1''" findings3 None db0 "Some ''Bearer secret1''" "''k1''"
      session1 issues1 "''Analysis completed successfully''" CREATED db1]
  from t a b c run_demo g v
  have 1: "overallScore session1 = Some (aggregateScore findings3)"
    and 2: "analysisSessionsTable db1 = analysisSessionsTable db0 @ [session1]"
    by auto
  have 3: "aggregateScore findings3 = 4.5"
    using 1 by (simp add: session1_def)
  have 4: "overallScore session2 = Some (aggregateScore [])" "aggregateScore [] = 10"
    by (simp_all add: session2_def aggregateScore_def clamp_def severityCount_def)
  show ?thesis
    by (intro conjI a b c run_demo v 1 2 3 4 run_quiet)
qed

end
